theory Spec2Isabelle
  imports Main "HOL-Library.Word" "HOL-Library.Signed_Division" "HOL-Library.AList"
begin

section \<open>Go data\<close>

text \<open>
  Go's \<open>int\<close> is taken at its 64-bit width: addition wraps around, and division
  truncates towards zero (\<open>sdiv\<close> on the signed values).  Go maps that the code only
  looks up are partial functions; maps that the code ranges over are association lists,
  whose order stands for the order in which \<open>range\<close> visits the entries (Go leaves
  it unspecified, and the theorems below hold for every order).
\<close>

type_synonym go_int = "64 word"

definition go_div :: "go_int \<Rightarrow> go_int \<Rightarrow> go_int" where
  "go_div a b = word_of_int (sint a sdiv sint b)"

text \<open>\<open>strings.HasPrefix\<close>.\<close>

definition HasPrefix :: "string \<Rightarrow> string \<Rightarrow> bool" where
  "HasPrefix s p = (take (length p) s = p)"

section \<open>Server (package model)\<close>

text \<open>\<open>type Status int\<close> and \<open>type Circuit int\<close> with their constants.\<close>

type_synonym Status = go_int
type_synonym Circuit = go_int

definition Down :: Status where "Down = 0"
definition Up :: Status where "Up = 1"

definition CircuitOpen :: Circuit where "CircuitOpen = 0"
definition CircuitHalf :: Circuit where "CircuitHalf = 1"
definition CircuitClose :: Circuit where "CircuitClose = 2"

definition DefaultCheckDurationInSeconds :: go_int where
  "DefaultCheckDurationInSeconds = 5"
definition DefaultCheckTimeoutInSeconds :: go_int where
  "DefaultCheckTimeoutInSeconds = 3"

text \<open>
  The struct \<open>Server\<close>.  The exported fields come first, in the order of the source;
  \<open>httpClient\<close> is kept as the timeout (in seconds) of the client it points to,
  \<open>None\<close> for the nil pointer.  The mutex has no counterpart: every operation
  below is one atomic step.
\<close>

record Server =
  Schema :: string
  Addr :: string
  External :: bool
  CheckPath :: string
  CheckResponsedBody :: string
  CheckDuration :: go_int
  CheckTimeout :: go_int
  Status :: Status
  MaxQPS :: go_int
  HalfToOpenSeconds :: go_int
  HalfTrafficRate :: go_int
  HalfToOpenSucceedRate :: go_int
  HalfToOpenCollectSeconds :: go_int
  OpenToCloseFailureRate :: go_int
  OpenToCloseCollectSeconds :: go_int
  BindClusters :: "string list"
  httpClient :: "go_int option"
  checkFailCount :: go_int
  prevStatus :: Status
  useCheckDuration :: go_int
  circuit :: Circuit
  checkStopped :: bool

definition getCheckTimeout :: "Server \<Rightarrow> go_int" where
  "getCheckTimeout s =
     (if CheckTimeout s = 0 then DefaultCheckTimeoutInSeconds else CheckTimeout s)"

definition init :: "Server \<Rightarrow> Server" where
  "init s = s\<lparr>httpClient := Some (getCheckTimeout s), circuit := CircuitOpen,
              checkStopped := False\<rparr>"

definition stopCheck :: "Server \<Rightarrow> Server" where
  "stopCheck s = s\<lparr>checkStopped := True\<rparr>"

definition fail :: "Server \<Rightarrow> Server" where
  "fail s = s\<lparr>checkFailCount := checkFailCount s + 1,
              useCheckDuration := useCheckDuration s + go_div (useCheckDuration s) 2\<rparr>"

definition reset :: "Server \<Rightarrow> Server" where
  "reset s = s\<lparr>checkFailCount := 0, useCheckDuration := CheckDuration s\<rparr>"

definition changeTo :: "Status \<Rightarrow> Server \<Rightarrow> Server" where
  "changeTo status s = s\<lparr>prevStatus := Status s, Status := status\<rparr>"

definition statusChanged :: "Server \<Rightarrow> bool" where
  "statusChanged s = (prevStatus s \<noteq> Status s)"

text \<open>
  What the probe \<open>s.httpClient.Get(s.getCheckURL())\<close> brought back: an error, or a
  response with its status code and its body (\<open>None\<close> when reading the body fails).
\<close>

datatype probe = GetError | GetResponse go_int "string option"

text \<open>
  \<open>Server.check\<close>: the value of \<open>succ\<close> on each path of the function, then the
  deferred call of \<open>reset\<close> or \<open>fail\<close>.  The probe goes through
  \<open>s.httpClient\<close>, so this is the method on a server that has a client, as every
  server has after \<open>init\<close>.  On the nil client the call of \<open>Get\<close> panics and no
  probe is made; \<open>RouteTable_check\<close> below, the one caller that does not call
  \<open>init\<close> first, has the panic as a case of its own.
\<close>

definition check_succ :: "Server \<Rightarrow> probe \<Rightarrow> bool" where
  "check_succ s p =
     (case p of
        GetError \<Rightarrow> False
      | GetResponse code body \<Rightarrow>
          if code \<noteq> 200 then False
          else if CheckResponsedBody s = [] then True
          else (case body of None \<Rightarrow> False | Some b \<Rightarrow> b = CheckResponsedBody s))"

definition check :: "Server \<Rightarrow> probe \<Rightarrow> bool \<times> Server" where
  "check s p = (let succ = check_succ s p in (succ, if succ then reset s else fail s))"

text \<open>A run of health checks on one server, one probe outcome per check.\<close>

fun checks :: "Server \<Rightarrow> probe list \<Rightarrow> Server" where
  "checks s [] = s"
| "checks s (p # ps) = checks (snd (check s p)) ps"

text \<open>The zero value \<open>Server{}\<close>.\<close>

definition zeroServer :: Server where
  "zeroServer = \<lparr>Schema = [], Addr = [], External = False, CheckPath = [],
     CheckResponsedBody = [], CheckDuration = 0, CheckTimeout = 0, Status = 0, MaxQPS = 0,
     HalfToOpenSeconds = 0, HalfTrafficRate = 0, HalfToOpenSucceedRate = 0,
     HalfToOpenCollectSeconds = 0, OpenToCloseFailureRate = 0,
     OpenToCloseCollectSeconds = 0, BindClusters = [], httpClient = None,
     checkFailCount = 0, prevStatus = 0, useCheckDuration = 0, circuit = 0,
     checkStopped = False\<rparr>"

section \<open>Serialization of a Server\<close>

text \<open>
  \<open>Server.Marshal\<close> and \<open>UnMarshalServer\<close> go through \<open>encoding/json\<close>.  The
  serialized form is kept as the JSON document that the bytes denote: an object whose
  members follow the struct tags, in the order of the fields.  A tag with
  \<open>omitempty\<close> leaves the member out when the field has its zero value; only
  \<open>checkResponsedBody\<close> is always written.  Unexported fields are never written.
  A string of the document is kept as the UTF-8 bytes of its text.
\<close>

datatype json = JNull | JBool bool | JNumber int | JString string
  | JArray "json list" | JObject "(string \<times> json) list"

text \<open>
  A Go string is any sequence of bytes, and the encoder of \<open>encoding/json\<close> writes
  text: it goes through the string with \<open>utf8.DecodeRuneInString\<close>, and where that
  returns \<open>RuneError\<close> with size 1 it writes the escape of U+FFFD for the byte, which
  reads back as the three bytes of U+FFFD.  \<open>runeLen\<close> is the size that
  \<open>DecodeRuneInString\<close> finds at the head of a string, 0 where it reports the error:
  the first byte gives the size and the range of the second byte, the bytes after that
  are continuation bytes.  \<open>coerceUTF8\<close> is the string as it is written and read back,
  and \<open>ValidString\<close> is \<open>utf8.ValidString\<close>.  (The escapes that the encoder writes
  for some characters denote the characters themselves.)
\<close>

definition runeSize :: "nat \<Rightarrow> nat" where
  "runeSize b =
     (if b < 0x80 then 1 else if b < 0xC2 then 0 else if b < 0xE0 then 2
      else if b < 0xF0 then 3 else if b < 0xF5 then 4 else 0)"

definition acceptRange :: "nat \<Rightarrow> nat \<times> nat" where
  "acceptRange b =
     (if b = 0xE0 then (0xA0, 0xBF) else if b = 0xED then (0x80, 0x9F)
      else if b = 0xF0 then (0x90, 0xBF) else if b = 0xF4 then (0x80, 0x8F)
      else (0x80, 0xBF))"

definition inRange :: "nat \<times> nat \<Rightarrow> char \<Rightarrow> bool" where
  "inRange r c = (fst r \<le> of_char c \<and> of_char c \<le> snd r)"

definition runeLen :: "string \<Rightarrow> nat" where
  "runeLen s =
     (case s of
        [] \<Rightarrow> 0
      | c # cs \<Rightarrow>
          (let n = runeSize (of_char c) in
           if n \<le> 1 then n
           else if length cs < n - 1 then 0
           else if \<not> inRange (acceptRange (of_char c)) (hd cs) then 0
           else if \<not> list_all (inRange (0x80, 0xBF)) (take (n - 2) (tl cs)) then 0
           else n))"

fun coerceFrom :: "nat \<Rightarrow> string \<Rightarrow> string" where
  "coerceFrom k [] = []"
| "coerceFrom (Suc k) (c # cs) = c # coerceFrom k cs"
| "coerceFrom 0 (c # cs) =
     (case runeLen (c # cs) of
        0 \<Rightarrow> [CHR 0xEF, CHR 0xBF, CHR 0xBD] @ coerceFrom 0 cs
      | Suc n \<Rightarrow> c # coerceFrom n cs)"

definition coerceUTF8 :: "string \<Rightarrow> string" where
  "coerceUTF8 s = coerceFrom 0 s"

fun validFrom :: "nat \<Rightarrow> string \<Rightarrow> bool" where
  "validFrom k [] = True"
| "validFrom (Suc k) (c # cs) = validFrom k cs"
| "validFrom 0 (c # cs) =
     (case runeLen (c # cs) of 0 \<Rightarrow> False | Suc n \<Rightarrow> validFrom n cs)"

definition ValidString :: "string \<Rightarrow> bool" where
  "ValidString s = validFrom 0 s"

definition omitString :: "string \<Rightarrow> string \<Rightarrow> (string \<times> json) list" where
  "omitString key v = (if v = [] then [] else [(key, JString (coerceUTF8 v))])"

definition omitInt :: "string \<Rightarrow> go_int \<Rightarrow> (string \<times> json) list" where
  "omitInt key v = (if v = 0 then [] else [(key, JNumber (sint v))])"

definition omitBool :: "string \<Rightarrow> bool \<Rightarrow> (string \<times> json) list" where
  "omitBool key v = (if v then [(key, JBool True)] else [])"

definition omitStrings :: "string \<Rightarrow> string list \<Rightarrow> (string \<times> json) list" where
  "omitStrings key v =
     (if v = [] then [] else [(key, JArray (map (\<lambda>x. JString (coerceUTF8 x)) v))])"

definition Marshal :: "Server \<Rightarrow> json" where
  "Marshal s = JObject (
       omitString ''schema'' (Schema s)
     @ omitString ''addr'' (Addr s)
     @ omitBool ''external'' (External s)
     @ omitString ''checkPath'' (CheckPath s)
     @ [(''checkResponsedBody'', JString (coerceUTF8 (CheckResponsedBody s)))]
     @ omitInt ''checkDuration'' (CheckDuration s)
     @ omitInt ''checkTimeout'' (CheckTimeout s)
     @ omitInt ''status'' (Status s)
     @ omitInt ''maxQPS'' (MaxQPS s)
     @ omitInt ''halfToOpenSeconds'' (HalfToOpenSeconds s)
     @ omitInt ''halfTrafficRate'' (HalfTrafficRate s)
     @ omitInt ''halfToOpenSucceedRate'' (HalfToOpenSucceedRate s)
     @ omitInt ''halfToOpenCollectSeconds'' (HalfToOpenCollectSeconds s)
     @ omitInt ''openToCloseFailureRate'' (OpenToCloseFailureRate s)
     @ omitInt ''openToCloseCollectSeconds'' (OpenToCloseCollectSeconds s)
     @ omitStrings ''bindClusters'' (BindClusters s))"

text \<open>
  \<open>json.Unmarshal\<close> into a struct: the members are taken in the order of the document,
  each one stored in the field whose tag is its key.  A member of the wrong JSON type, or
  a number outside the range of \<open>int\<close>, leaves its field as it was (the decoder
  reports the error at the end, and \<open>UnMarshalServer\<close> drops it); a key that no tag
  names is skipped.  Keys are compared exactly, as \<open>Marshal\<close> writes them, and the
  strings of the document are text, as \<open>Marshal\<close> writes them.
\<close>

definition asInt :: "json \<Rightarrow> go_int option" where
  "asInt j = (case j of
       JNumber n \<Rightarrow> if - (2 ^ 63) \<le> n \<and> n < 2 ^ 63 then Some (word_of_int n) else None
     | _ \<Rightarrow> None)"

definition asString :: "json \<Rightarrow> string option" where
  "asString j = (case j of JString x \<Rightarrow> Some x | _ \<Rightarrow> None)"

definition asBool :: "json \<Rightarrow> bool option" where
  "asBool j = (case j of JBool b \<Rightarrow> Some b | _ \<Rightarrow> None)"

fun asStrings_list :: "json list \<Rightarrow> string list option" where
  "asStrings_list [] = Some []"
| "asStrings_list (j # js) =
     (case asString j of None \<Rightarrow> None
      | Some x \<Rightarrow> (case asStrings_list js of None \<Rightarrow> None | Some xs \<Rightarrow> Some (x # xs)))"

definition asStrings :: "json \<Rightarrow> string list option" where
  "asStrings j = (case j of JArray js \<Rightarrow> asStrings_list js | _ \<Rightarrow> None)"

definition setInt :: "(go_int \<Rightarrow> Server) \<Rightarrow> json \<Rightarrow> Server \<Rightarrow> Server" where
  "setInt upd j v = (case asInt j of None \<Rightarrow> v | Some n \<Rightarrow> upd n)"

definition setString :: "(string \<Rightarrow> Server) \<Rightarrow> json \<Rightarrow> Server \<Rightarrow> Server" where
  "setString upd j v = (case asString j of None \<Rightarrow> v | Some x \<Rightarrow> upd x)"

definition setMember :: "Server \<Rightarrow> string \<times> json \<Rightarrow> Server" where
  "setMember v m = (let key = fst m; j = snd m in
     if key = ''schema'' then setString (\<lambda>x. v\<lparr>Schema := x\<rparr>) j v
     else if key = ''addr'' then setString (\<lambda>x. v\<lparr>Addr := x\<rparr>) j v
     else if key = ''external'' then
       (case asBool j of None \<Rightarrow> v | Some b \<Rightarrow> v\<lparr>External := b\<rparr>)
     else if key = ''checkPath'' then setString (\<lambda>x. v\<lparr>CheckPath := x\<rparr>) j v
     else if key = ''checkResponsedBody'' then
       setString (\<lambda>x. v\<lparr>CheckResponsedBody := x\<rparr>) j v
     else if key = ''checkDuration'' then setInt (\<lambda>n. v\<lparr>CheckDuration := n\<rparr>) j v
     else if key = ''checkTimeout'' then setInt (\<lambda>n. v\<lparr>CheckTimeout := n\<rparr>) j v
     else if key = ''status'' then setInt (\<lambda>n. v\<lparr>Status := n\<rparr>) j v
     else if key = ''maxQPS'' then setInt (\<lambda>n. v\<lparr>MaxQPS := n\<rparr>) j v
     else if key = ''halfToOpenSeconds'' then
       setInt (\<lambda>n. v\<lparr>HalfToOpenSeconds := n\<rparr>) j v
     else if key = ''halfTrafficRate'' then
       setInt (\<lambda>n. v\<lparr>HalfTrafficRate := n\<rparr>) j v
     else if key = ''halfToOpenSucceedRate'' then
       setInt (\<lambda>n. v\<lparr>HalfToOpenSucceedRate := n\<rparr>) j v
     else if key = ''halfToOpenCollectSeconds'' then
       setInt (\<lambda>n. v\<lparr>HalfToOpenCollectSeconds := n\<rparr>) j v
     else if key = ''openToCloseFailureRate'' then
       setInt (\<lambda>n. v\<lparr>OpenToCloseFailureRate := n\<rparr>) j v
     else if key = ''openToCloseCollectSeconds'' then
       setInt (\<lambda>n. v\<lparr>OpenToCloseCollectSeconds := n\<rparr>) j v
     else if key = ''bindClusters'' then
       (case asStrings j of None \<Rightarrow> v | Some xs \<Rightarrow> v\<lparr>BindClusters := xs\<rparr>)
     else v)"

definition Unmarshal :: "json \<Rightarrow> Server \<Rightarrow> Server" where
  "Unmarshal data v = (case data of JObject ms \<Rightarrow> foldl setMember v ms | _ \<Rightarrow> v)"

definition UnMarshalServer :: "json \<Rightarrow> Server" where
  "UnMarshalServer data =
     (let v = Unmarshal data zeroServer
      in if 0 = CheckTimeout v then v\<lparr>CheckTimeout := DefaultCheckTimeoutInSeconds\<rparr> else v)"

section \<open>Clusters, APIs, routings\<close>

text \<open>
  Of a \<open>fasthttp.Request\<close>, what the proxy sets on the outgoing request (URI and
  host) and the method.
\<close>

record Request =
  RequestURI :: string
  Host :: string
  RequestMethod :: string

text \<open>
  Modelled from the spec: the struct \<open>Cluster\<close> and its methods \<open>bind\<close>,
  \<open>unbind\<close> and \<open>Select\<close>, which are not among the sources.  The spec gives a
  cluster a name, a load-balance strategy and the list of its active servers (kept by
  address); \<open>bind\<close> puts a server into the active list, \<open>unbind\<close> takes it out, and
  \<open>Select\<close> returns the address that the strategy picks among the active servers, or
  the empty address when there is none.  The strategies themselves are a parameter: a
  \<open>balancer\<close> names the position it picks for a request.  The spec also says that a
  node naming a missing cluster gives a selection miss and not a crash, so \<open>Select\<close>
  on the nil cluster (\<open>None\<close>) returns the empty address.
\<close>

record Cluster =
  Name :: string
  LbName :: string
  activeServers :: "string list"

type_synonym balancer = "Request \<Rightarrow> Cluster \<Rightarrow> nat"

definition bind :: "Server \<Rightarrow> Cluster \<Rightarrow> Cluster" where
  "bind svr c =
     (if Addr svr \<in> set (activeServers c) then c
      else c\<lparr>activeServers := activeServers c @ [Addr svr]\<rparr>)"

definition unbind :: "Server \<Rightarrow> Cluster \<Rightarrow> Cluster" where
  "unbind svr c = c\<lparr>activeServers := removeAll (Addr svr) (activeServers c)\<rparr>"

definition Cluster_Select :: "balancer \<Rightarrow> Request \<Rightarrow> Cluster option \<Rightarrow> string" where
  "Cluster_Select lb req cluster =
     (case cluster of
        None \<Rightarrow> []
      | Some c \<Rightarrow>
          (case activeServers c of
             [] \<Rightarrow> []
           | a # as \<Rightarrow> (a # as) ! (lb req c mod length (a # as))))"

text \<open>
  The structs \<open>Node\<close>, \<open>API\<close> and \<open>Routing\<close> are declared outside the sources;
  these are the fields that the route table and the proxy read.  The field
  \<open>ClusterName\<close> of a routing is \<open>RoutingClusterName\<close> here, since a node has a
  field of the same name.  \<open>api.matches\<close>, \<open>routing.Matches\<close> and
  \<open>routing.Check\<close> are parameters of the functions that call them; \<open>api.Parse\<close>
  prepares the pattern that \<open>api.matches\<close> uses and changes none of these fields.
\<close>

record Node =
  ClusterName :: string
  Rewrite :: string
  AttrName :: string

record API =
  URL :: string
  Method :: string
  Nodes :: "Node list"
  Mock :: "string option"

record Routing =
  ID :: string
  RoutingClusterName :: string
  Cfg :: string

text \<open>
  Modelled from the spec: \<open>getAPIKey\<close>, which is not among the sources.  The spec
  keys an API by its pair (url, method) and lays the registry out as
  \<open>/apis/<url>-<method>\<close>.
\<close>

definition getAPIKey :: "string \<Rightarrow> string \<Rightarrow> string" where
  "getAPIKey url method = url @ ''-'' @ method"

section \<open>Errors and route results\<close>

datatype error =
    ErrServerExists | ErrClusterExists | ErrBindExists | ErrAPIExists | ErrRoutingExists
  | ErrServerNotFound | ErrClusterNotFound | ErrBindNotFound | ErrAPINotFound
  | ErrRoutingNotFound | ErrNoServer | ErrRewriteNotMatch
  | ErrText string

text \<open>\<open>err.Error()\<close>: the text given to \<open>errors.New\<close>.\<close>

fun Error :: "error \<Rightarrow> string" where
  "Error ErrServerExists = ''Server already exist''"
| "Error ErrClusterExists = ''Cluster already exist''"
| "Error ErrBindExists = ''Bind already exist''"
| "Error ErrAPIExists = ''API already exist''"
| "Error ErrRoutingExists = ''Routing already exist''"
| "Error ErrServerNotFound = ''Server not found''"
| "Error ErrClusterNotFound = ''Cluster not found''"
| "Error ErrBindNotFound = ''Bind not found''"
| "Error ErrAPINotFound = ''API not found''"
| "Error ErrRoutingNotFound = ''Routing not found''"
| "Error ErrNoServer = ''has no server''"
| "Error ErrRewriteNotMatch = ''rewrite not match request url''"
| "Error (ErrText t) = t"

text \<open>
  Pointers to servers and clusters are references into two stores, so that the objects
  shared between the maps of the route table, the event channel and the callers are
  shared in the model too.  A reference always has an object; the nil pointer is
  \<open>None\<close> where the code can meet it.
\<close>

type_synonym sref = nat
type_synonym cref = nat

text \<open>A \<open>fasthttp.Response\<close>: status code, header (name and value, in order), body.\<close>

type_synonym header = "(string \<times> string) list"

record HttpResponse =
  StatusCode :: go_int
  Header :: header
  Body :: string

record RouteResult =
  API :: API
  Node :: "Node option"
  Svr :: "sref option"
  Err :: "error option"
  Code :: go_int
  Res :: "HttpResponse option"
  Merge :: bool

definition NeedRewrite :: "RouteResult \<Rightarrow> bool" where
  "NeedRewrite result = (case Node result of None \<Rightarrow> False | Some n \<Rightarrow> Rewrite n \<noteq> [])"

definition GetRewritePath ::
    "(API \<Rightarrow> Request \<Rightarrow> Node \<Rightarrow> string) \<Rightarrow> RouteResult \<Rightarrow> Request \<Rightarrow> string" where
  "GetRewritePath getNodeURL result req =
     (case Node result of None \<Rightarrow> [] | Some n \<Rightarrow> getNodeURL (API result) req n)"

section \<open>RouteTable\<close>

text \<open>
  The struct \<open>RouteTable\<close>, with the two stores \<open>servers\<close> and \<open>clusterObjs\<close>
  that hold the objects behind its pointers.  \<open>apis\<close>, \<open>routings\<close> and the inner
  maps of \<open>mapping\<close> are ranged over, so they are association lists.  The time wheel
  \<open>tw\<close> keeps, for each key, the delay in seconds of the timer set under it
  (\<open>AddWithID\<close> replaces the timer of a key, \<open>Cancel\<close> removes it); its callback is
  always \<open>RouteTable.check\<close>.  \<open>evtChan\<close> is the queue of the channel, oldest first.
  \<open>analysiser\<close> is the state of the analyzer: for each address, the windows (in
  seconds) registered for it.
\<close>

record RouteTable =
  clusters :: "string \<rightharpoonup> cref"
  svrs :: "string \<rightharpoonup> sref"
  mapping :: "string \<rightharpoonup> (string \<times> cref) list"
  apis :: "(string \<times> API) list"
  routings :: "(string \<times> Routing) list"
  tw :: "string \<rightharpoonup> go_int"
  evtChan :: "sref list"
  analysiser :: "string \<rightharpoonup> go_int list"
  servers :: "sref \<Rightarrow> Server"
  clusterObjs :: "cref \<Rightarrow> Cluster"

text \<open>
  Modelled from the spec: the analyzer \<open>Analysis\<close> and its methods
  \<open>addNewAnalysis\<close> and \<open>AddRecentCount\<close>, which are not among the sources.  The
  spec gives the analyzer, for each server, a set of windows; \<open>addNewAnalysis\<close> starts
  the state of an address and \<open>AddRecentCount\<close> registers a window for it.
\<close>

definition addNewAnalysis :: "string \<Rightarrow> RouteTable \<Rightarrow> RouteTable" where
  "addNewAnalysis addr rt = rt\<lparr>analysiser := (analysiser rt)(addr \<mapsto> [])\<rparr>"

definition AddRecentCount :: "string \<Rightarrow> go_int \<Rightarrow> RouteTable \<Rightarrow> RouteTable" where
  "AddRecentCount addr secs rt =
     rt\<lparr>analysiser := (analysiser rt)(addr \<mapsto>
          (case analysiser rt addr of None \<Rightarrow> [secs] | Some ws \<Rightarrow> ws @ [secs]))\<rparr>"

text \<open>\<open>cluster.bind(svr)\<close> and \<open>cluster.unbind(svr)\<close> on the object behind a pointer.\<close>

definition bindAt :: "Server \<Rightarrow> RouteTable \<Rightarrow> cref \<Rightarrow> RouteTable" where
  "bindAt svr rt c = rt\<lparr>clusterObjs := (clusterObjs rt)(c := bind svr (clusterObjs rt c))\<rparr>"

definition unbindAt :: "Server \<Rightarrow> RouteTable \<Rightarrow> cref \<Rightarrow> RouteTable" where
  "unbindAt svr rt c =
     rt\<lparr>clusterObjs := (clusterObjs rt)(c := unbind svr (clusterObjs rt c))\<rparr>"

text \<open>The value of \<open>r.mapping[addr]\<close> when it is ranged over: no entry is the nil map.\<close>

definition bindedOf :: "RouteTable \<Rightarrow> string \<Rightarrow> (string \<times> cref) list" where
  "bindedOf rt addr = (case mapping rt addr of None \<Rightarrow> [] | Some binded \<Rightarrow> binded)"

subsection \<open>Routings and APIs\<close>

definition AddNewRouting ::
    "(Routing \<Rightarrow> error option) \<Rightarrow> Routing \<Rightarrow> RouteTable \<Rightarrow> error option \<times> RouteTable" where
  "AddNewRouting Check routing rt =
     (case Check routing of
        Some err \<Rightarrow> (Some err, rt)
      | None \<Rightarrow>
          if map_of (routings rt) (ID routing) \<noteq> None then (Some ErrRoutingExists, rt)
          else (None, rt\<lparr>routings := AList.update (ID routing) routing (routings rt)\<rparr>))"

definition DeleteRouting :: "string \<Rightarrow> RouteTable \<Rightarrow> error option \<times> RouteTable" where
  "DeleteRouting rid rt =
     (if map_of (routings rt) rid = None then (Some ErrRoutingNotFound, rt)
      else (None, rt\<lparr>routings := AList.delete rid (routings rt)\<rparr>))"

definition AddNewAPI :: "API \<Rightarrow> RouteTable \<Rightarrow> error option \<times> RouteTable" where
  "AddNewAPI api rt =
     (if map_of (apis rt) (URL api) \<noteq> None then (Some ErrAPIExists, rt)
      else (None, rt\<lparr>apis := AList.update (getAPIKey (URL api) (Method api)) api (apis rt)\<rparr>))"

definition UpdateAPI :: "API \<Rightarrow> RouteTable \<Rightarrow> error option \<times> RouteTable" where
  "UpdateAPI api rt =
     (if map_of (apis rt) (getAPIKey (URL api) (Method api)) = None
      then (Some ErrAPINotFound, rt)
      else (None, rt\<lparr>apis := AList.update (getAPIKey (URL api) (Method api)) api (apis rt)\<rparr>))"

definition DeleteAPI :: "string \<Rightarrow> string \<Rightarrow> RouteTable \<Rightarrow> error option \<times> RouteTable" where
  "DeleteAPI url method rt =
     (if map_of (apis rt) (getAPIKey url method) = None then (Some ErrAPINotFound, rt)
      else (None, rt\<lparr>apis := AList.delete (getAPIKey url method) (apis rt)\<rparr>))"

subsection \<open>Health checks\<close>

definition removeFromCheck :: "sref \<Rightarrow> RouteTable \<Rightarrow> RouteTable" where
  "removeFromCheck p rt = rt\<lparr>tw := (tw rt)(Addr (servers rt p) := None)\<rparr>"

text \<open>
  \<open>addToCheck\<close>: one probe of the server, the change of status that follows it, and
  the timer for the next check.  The log lines have no counterpart.
\<close>

definition addToCheck :: "probe \<Rightarrow> sref \<Rightarrow> RouteTable \<Rightarrow> RouteTable" where
  "addToCheck pr p rt =
     (let r = check (servers rt p) pr;
          svr = (if fst r then changeTo Up (snd r) else changeTo Down (snd r))
      in rt\<lparr>servers := (servers rt)(p := svr),
             tw := (tw rt)(Addr svr \<mapsto> useCheckDuration svr)\<rparr>)"

text \<open>
  \<open>RouteTable.check\<close>, the callback of the timer.  The result is \<open>None\<close> when the
  function panics and the send is never reached: with no server under the address,
  \<open>svr\<close> is nil and reading \<open>svr.checkStopped\<close> panics; with a server that is to
  be checked and has no client, \<open>svr.check()\<close> panics in \<open>s.httpClient.Get\<close>.
  The send on the channel waits while the buffer of 1024 is full; the model is of the
  moment it has gone through.
\<close>

definition RouteTable_check :: "probe \<Rightarrow> string \<Rightarrow> RouteTable \<Rightarrow> RouteTable option" where
  "RouteTable_check pr addr rt =
     (case svrs rt addr of
        None \<Rightarrow> None
      | Some p \<Rightarrow>
          if \<not> checkStopped (servers rt p) \<and> httpClient (servers rt p) = None then None
          else
            (let rt1 = (if \<not> checkStopped (servers rt p) then addToCheck pr p rt else rt)
             in Some (rt1\<lparr>evtChan := evtChan rt1 @ [p]\<rparr>)))"

text \<open>
  \<open>RouteTable.changed\<close> is an endless loop around a receive.  \<open>changed_body\<close> is
  its body for the server received, and \<open>changed\<close> one turn of the loop: \<open>None\<close>
  when the channel is empty and the receive waits.
\<close>

definition changed_body :: "sref \<Rightarrow> RouteTable \<Rightarrow> RouteTable" where
  "changed_body p rt =
     (let svr = servers rt p in
      if statusChanged svr then
        (let binded = bindedOf rt (Addr svr) in
         if Status svr = Up then foldl (bindAt svr) rt (map snd binded)
         else foldl (unbindAt svr) rt (map snd binded))
      else rt)"

definition changed :: "RouteTable \<Rightarrow> RouteTable option" where
  "changed rt =
     (case evtChan rt of
        [] \<Rightarrow> None
      | p # rest \<Rightarrow> Some (changed_body p (rt\<lparr>evtChan := rest\<rparr>)))"

subsection \<open>Servers, clusters and binds\<close>

text \<open>
  \<open>AddNewServer\<close> takes the pointer it is called with; \<open>pr\<close> is the outcome of the
  probe that \<open>addToCheck\<close> makes when the server is not external.  The function is
  cut in three at the two blank lines of the source: \<open>registerServer\<close> is the part up
  to \<open>svr.init()\<close>, \<open>startServer\<close> the first check or the change to \<open>Up\<close>,
  \<open>analyseServer\<close> the calls of the analyzer.
\<close>

definition registerServer :: "sref \<Rightarrow> RouteTable \<Rightarrow> RouteTable" where
  "registerServer p rt =
     (let svr = (servers rt p)\<lparr>prevStatus := Down, Status := Down,
                                useCheckDuration := CheckDuration (servers rt p)\<rparr>
      in rt\<lparr>svrs := (svrs rt)(Addr svr \<mapsto> p),
             mapping := (mapping rt)(Addr svr \<mapsto> []),
             servers := (servers rt)(p := init svr)\<rparr>)"

definition startServer :: "probe \<Rightarrow> sref \<Rightarrow> RouteTable \<Rightarrow> RouteTable" where
  "startServer pr p rt =
     (if \<not> External (servers rt p) then addToCheck pr p rt
      else rt\<lparr>servers := (servers rt)(p := changeTo Up (servers rt p))\<rparr>)"

definition analyseServer :: "sref \<Rightarrow> RouteTable \<Rightarrow> RouteTable" where
  "analyseServer p rt =
     (let svr = servers rt p;
          rt1 = AddRecentCount (Addr svr) 1 (addNewAnalysis (Addr svr) rt);
          rt2 = (if 0 < sint (OpenToCloseCollectSeconds svr)
                 then AddRecentCount (Addr svr) (OpenToCloseCollectSeconds svr) rt1 else rt1)
      in if 0 < sint (HalfToOpenCollectSeconds svr)
         then AddRecentCount (Addr svr) (HalfToOpenCollectSeconds svr) rt2 else rt2)"

definition AddNewServer :: "probe \<Rightarrow> sref \<Rightarrow> RouteTable \<Rightarrow> error option \<times> RouteTable" where
  "AddNewServer pr p rt =
     (if svrs rt (Addr (servers rt p)) \<noteq> None then (Some ErrServerExists, rt)
      else (None, analyseServer p (startServer pr p (registerServer p rt))))"

definition DeleteServer :: "string \<Rightarrow> RouteTable \<Rightarrow> error option \<times> RouteTable" where
  "DeleteServer serverAddr rt =
     (case svrs rt serverAddr of
        None \<Rightarrow> (Some ErrServerNotFound, rt)
      | Some p \<Rightarrow>
          (let rt1 = rt\<lparr>svrs := (svrs rt)(serverAddr := None)\<rparr>;
               rt2 = rt1\<lparr>servers := (servers rt1)(p := stopCheck (servers rt1 p))\<rparr>;
               rt3 = removeFromCheck p rt2;
               svr = servers rt3 p;
               binded = bindedOf rt3 (Addr svr);
               rt4 = rt3\<lparr>mapping := (mapping rt3)(Addr svr := None)\<rparr>
           in (None, foldl (unbindAt svr) rt4 (map snd binded))))"

definition AddNewCluster :: "cref \<Rightarrow> RouteTable \<Rightarrow> error option \<times> RouteTable" where
  "AddNewCluster c rt =
     (if clusters rt (Name (clusterObjs rt c)) \<noteq> None then (Some ErrClusterExists, rt)
      else (None, rt\<lparr>clusters := (clusters rt)(Name (clusterObjs rt c) \<mapsto> c)\<rparr>))"

text \<open>
  \<open>Bind\<close>.  When \<open>r.mapping\<close> has no entry for the server, \<open>binded\<close> is the nil
  map and the assignment \<open>binded[cluster.Name] = cluster\<close> panics: the result is
  \<open>None\<close>.
\<close>

definition Bind ::
    "string \<Rightarrow> string \<Rightarrow> RouteTable \<Rightarrow> (error option \<times> RouteTable) option" where
  "Bind svrAddr clusterName rt =
     (case svrs rt svrAddr of
        None \<Rightarrow> Some (Some ErrServerNotFound, rt)
      | Some p \<Rightarrow>
          (case clusters rt clusterName of
             None \<Rightarrow> Some (Some ErrClusterNotFound, rt)
           | Some c \<Rightarrow>
               (let svr = servers rt p; cluster = clusterObjs rt c;
                    binded = bindedOf rt (Addr svr)
                in case map_of binded (Name cluster) of
                     Some bindCluster \<Rightarrow>
                       if Name (clusterObjs rt bindCluster) = clusterName
                       then Some (Some ErrBindExists, rt)
                       else Some (None,
                         (if Status svr = Up then (\<lambda>r. bindAt svr r c) else (\<lambda>r. r))
                           (rt\<lparr>mapping := (mapping rt)(Addr svr \<mapsto>
                                  AList.update (Name cluster) c binded)\<rparr>))
                   | None \<Rightarrow>
                       if mapping rt (Addr svr) = None then None
                       else Some (None,
                         (if Status svr = Up then (\<lambda>r. bindAt svr r c) else (\<lambda>r. r))
                           (rt\<lparr>mapping := (mapping rt)(Addr svr \<mapsto>
                                  AList.update (Name cluster) c binded)\<rparr>)))))"

subsection \<open>Selection\<close>

definition doSelectServer ::
    "balancer \<Rightarrow> RouteTable \<Rightarrow> Request \<Rightarrow> cref option \<Rightarrow> sref option" where
  "doSelectServer lb rt req cluster =
     (let addr = Cluster_Select lb req (map_option (clusterObjs rt) cluster)
      in svrs rt addr)"

definition selectServer ::
    "balancer \<Rightarrow> RouteTable \<Rightarrow> Request \<Rightarrow> cref option \<Rightarrow> sref option" where
  "selectServer lb rt req cluster = doSelectServer lb rt req cluster"

text \<open>The loop of \<open>selectClusterByRouting\<close> over the routings still to visit.\<close>

fun selectClusterByRouting_loop ::
    "(Routing \<Rightarrow> Request \<Rightarrow> bool) \<Rightarrow> RouteTable \<Rightarrow> Request \<Rightarrow> cref option
      \<Rightarrow> (string \<times> Routing) list \<Rightarrow> cref option" where
  "selectClusterByRouting_loop Matches rt req targetCluster [] = targetCluster"
| "selectClusterByRouting_loop Matches rt req targetCluster (kv # rest) =
     (if Matches (snd kv) req then clusters rt (RoutingClusterName (snd kv))
      else selectClusterByRouting_loop Matches rt req targetCluster rest)"

definition selectClusterByRouting ::
    "(Routing \<Rightarrow> Request \<Rightarrow> bool) \<Rightarrow> RouteTable \<Rightarrow> Request \<Rightarrow> cref option \<Rightarrow> cref option" where
  "selectClusterByRouting Matches rt req src =
     selectClusterByRouting_loop Matches rt req src (routings rt)"

text \<open>
  \<open>Select\<close>.  \<open>newResult\<close> is the composite literal of the inner loop, and
  \<open>Select_loop\<close> the outer loop over the APIs still to visit, with the value of
  \<open>results\<close> so far (the nil slice is the empty list).  The loop has no
  \<open>break\<close>: an API that matches replaces the results of the ones before it.
\<close>

definition newResult ::
    "(Routing \<Rightarrow> Request \<Rightarrow> bool) \<Rightarrow> balancer \<Rightarrow> RouteTable \<Rightarrow> Request \<Rightarrow> API \<Rightarrow> Node
      \<Rightarrow> RouteResult" where
  "newResult Matches lb rt req api node =
     \<lparr>API = api, Node = Some node,
      Svr = selectServer lb rt req
              (selectClusterByRouting Matches rt req (clusters rt (ClusterName node))),
      Err = None, Code = 0, Res = None, Merge = False\<rparr>"

fun Select_loop ::
    "(API \<Rightarrow> Request \<Rightarrow> bool) \<Rightarrow> (Routing \<Rightarrow> Request \<Rightarrow> bool) \<Rightarrow> balancer \<Rightarrow> RouteTable
      \<Rightarrow> Request \<Rightarrow> RouteResult list \<Rightarrow> (string \<times> API) list \<Rightarrow> RouteResult list" where
  "Select_loop matches Matches lb rt req results [] = results"
| "Select_loop matches Matches lb rt req results (kv # rest) =
     Select_loop matches Matches lb rt req
       (if matches (snd kv) req
        then map (newResult Matches lb rt req (snd kv)) (Nodes (snd kv))
        else results)
       rest"

definition Select ::
    "(API \<Rightarrow> Request \<Rightarrow> bool) \<Rightarrow> (Routing \<Rightarrow> Request \<Rightarrow> bool) \<Rightarrow> balancer \<Rightarrow> RouteTable
      \<Rightarrow> Request \<Rightarrow> RouteResult list" where
  "Select matches Matches lb rt req = Select_loop matches Matches lb rt req [] (apis rt)"

section \<open>Proxy (package proxy)\<close>

definition ErrPrefixRequestCancel :: string where
  "ErrPrefixRequestCancel = ''request canceled''"

definition MergeContentType :: string where
  "MergeContentType = ''application/json; charset=utf-8''"

definition MergeRemoveHeaders :: "string list" where
  "MergeRemoveHeaders = [''Content-Length'', ''Content-Type'', ''Date'']"

text \<open>
  The three runs of the filter chain, \<open>doPreFilters\<close>, \<open>doPostFilters\<close> and
  \<open>doPostErrFilters\<close>, are methods of \<open>Proxy\<close> outside the sources: they are
  parameters, gathered in a record.  Each gets the outgoing request and the route result
  that the filter context holds, and the state \<open>'s\<close> that the filters keep (the counters
  of the analyzer among it); the first two return the name of the failing filter, its
  status code and its error.
\<close>

record 's Filters =
  doPreFilters :: "Request \<Rightarrow> RouteResult \<Rightarrow> 's \<Rightarrow> (string \<times> go_int \<times> error option) \<times> 's"
  doPostFilters :: "Request \<Rightarrow> RouteResult \<Rightarrow> 's \<Rightarrow> (string \<times> go_int \<times> error option) \<times> 's"
  doPostErrFilters :: "Request \<Rightarrow> RouteResult \<Rightarrow> 's \<Rightarrow> 's"

text \<open>
  What \<open>p.getClient(svr.Addr).Do(outreq, svr.Addr)\<close> returns: an error (with the
  response that came along, if any), or a response and no error.
\<close>

datatype backend = Failed error "HttpResponse option" | Responded HttpResponse

text \<open>The runs of the filter chain that a call of \<open>doProxy\<close> has made, in order.\<close>

datatype run = PreFilters | PostFilters | PostErrFilters

text \<open>
  \<open>doProxy\<close>.  The result is the route result as the function leaves it, the state of
  the filters, and the runs of the chain it made.  \<open>getNodeURL\<close> (behind
  \<open>GetRewritePath\<close>) and the backend call \<open>Do\<close> are parameters.  The wait group,
  the clock and the log have no counterpart.
\<close>

definition doProxy ::
    "'s Filters \<Rightarrow> (API \<Rightarrow> Request \<Rightarrow> Node \<Rightarrow> string) \<Rightarrow> (Request \<Rightarrow> string \<Rightarrow> backend)
      \<Rightarrow> RouteTable \<Rightarrow> Request \<Rightarrow> RouteResult \<Rightarrow> 's \<Rightarrow> RouteResult \<times> 's \<times> run list" where
  "doProxy F getNodeURL Do rt req result st =
     (case Svr result of
        None \<Rightarrow> (result\<lparr>Err := Some ErrNoServer, Code := 503\<rparr>, st, [])
      | Some p \<Rightarrow>
          (let svr = servers rt p;
               realPath = GetRewritePath getNodeURL result req
           in if NeedRewrite result \<and> realPath = []
              then (result\<lparr>Err := Some ErrRewriteNotMatch, Code := 400\<rparr>, st, [])
              else
                (let outreq = (if NeedRewrite result
                               then req\<lparr>RequestURI := realPath, Host := Addr svr\<rparr> else req);
                     pre = doPreFilters F outreq result st
                 in case snd (snd (fst pre)) of
                      Some err \<Rightarrow>
                        (result\<lparr>Err := Some err, Code := fst (snd (fst pre))\<rparr>, snd pre,
                         [PreFilters])
                    | None \<Rightarrow>
                        (case Do outreq (Addr svr) of
                           Failed err res \<Rightarrow>
                             (let result1 = result\<lparr>Res := res\<rparr> in
                              if \<not> HasPrefix (Error err) ErrPrefixRequestCancel
                              then (result1\<lparr>Err := Some err, Code := 503\<rparr>,
                                    doPostErrFilters F outreq result1 (snd pre),
                                    [PreFilters, PostErrFilters])
                              else (result1\<lparr>Err := Some err, Code := 503\<rparr>, snd pre,
                                    [PreFilters]))
                         | Responded res \<Rightarrow>
                             (let result1 = result\<lparr>Res := Some res\<rparr> in
                              if 500 \<le> sint (StatusCode res)
                              then (result1\<lparr>Err := None, Code := StatusCode res\<rparr>,
                                    doPostErrFilters F outreq result1 (snd pre),
                                    [PreFilters, PostErrFilters])
                              else
                                (let post = doPostFilters F outreq result1 (snd pre)
                                 in case snd (snd (fst post)) of
                                      Some err \<Rightarrow>
                                        (result1\<lparr>Err := Some err,
                                                  Code := fst (snd (fst post))\<rparr>,
                                         snd post, [PreFilters, PostFilters])
                                    | None \<Rightarrow>
                                        (result1, snd post, [PreFilters, PostFilters])))))))"

text \<open>
  The response side of a \<open>fasthttp.RequestCtx\<close>.  Of the header operations of
  fasthttp, \<open>Del\<close> takes every line of a name out and \<open>SetContentType\<close> leaves one
  line \<open>Content-Type\<close> with the value given; \<open>CopyTo\<close> is a parameter (given the
  source header and the destination, it returns the destination afterwards).
\<close>

record RequestCtx =
  CtxRequest :: Request
  RespStatusCode :: go_int
  RespHeader :: header
  RespBody :: string

definition Header_Del :: "header \<Rightarrow> string \<Rightarrow> header" where
  "Header_Del h key = filter (\<lambda>kv. fst kv \<noteq> key) h"

definition SetContentType :: "string \<Rightarrow> header \<Rightarrow> header" where
  "SetContentType v h = (''Content-Type'', v) # Header_Del h ''Content-Type''"

definition writeResult :: "RequestCtx \<Rightarrow> HttpResponse \<Rightarrow> RequestCtx" where
  "writeResult ctx res =
     ctx\<lparr>RespStatusCode := StatusCode res, RespBody := RespBody ctx @ Body res\<rparr>"

text \<open>
  The three loops of \<open>ReverseProxyHandler\<close> over the results.  The first one returns
  from the handler at an error or when the request is not a merge; going through a nil
  \<open>Res\<close> or \<open>Node\<close> panics.
\<close>

datatype flow = Returned RequestCtx | Panicked | Continue

fun errorLoop ::
    "(API \<Rightarrow> RequestCtx \<Rightarrow> RequestCtx) \<Rightarrow> bool \<Rightarrow> RequestCtx \<Rightarrow> RouteResult list \<Rightarrow> flow" where
  "errorLoop RenderMock merge ctx [] = Continue"
| "errorLoop RenderMock merge ctx (result # rest) =
     (if Err result \<noteq> None then
        (if Mock (API result) \<noteq> None then Returned (RenderMock (API result) ctx)
         else Returned (ctx\<lparr>RespStatusCode := Code result\<rparr>))
      else if \<not> merge then
        (case Res result of None \<Rightarrow> Panicked | Some res \<Rightarrow> Returned (writeResult ctx res))
      else errorLoop RenderMock merge ctx rest)"

fun headerLoop ::
    "(header \<Rightarrow> header \<Rightarrow> header) \<Rightarrow> header \<Rightarrow> RouteResult list \<Rightarrow> header option" where
  "headerLoop CopyTo dst [] = Some dst"
| "headerLoop CopyTo dst (result # rest) =
     (case Res result of
        None \<Rightarrow> None
      | Some res \<Rightarrow>
          headerLoop CopyTo (CopyTo (foldl Header_Del (Header res) MergeRemoveHeaders) dst) rest)"

fun bodyLoop :: "nat \<Rightarrow> nat \<Rightarrow> RouteResult list \<Rightarrow> string option" where
  "bodyLoop count index [] = Some []"
| "bodyLoop count index (result # rest) =
     (case Node result of
        None \<Rightarrow> None
      | Some node \<Rightarrow>
          (case Res result of
             None \<Rightarrow> None
           | Some res \<Rightarrow>
               (case bodyLoop count (Suc index) rest of
                  None \<Rightarrow> None
                | Some written \<Rightarrow>
                    Some ([CHR 0x22] @ AttrName node @ [CHR 0x22] @ '':'' @ Body res
                          @ (if int index < int count - 1 then '','' else [])
                          @ written))))"

text \<open>
  \<open>ReverseProxyHandler\<close>, given the value of \<open>p.isStopped()\<close>, the results of
  \<open>p.routeTable.Select\<close>, and what \<open>doProxy\<close> makes of one result (the calls of a
  merge run side by side, each on its own result).  \<open>None\<close> is a panic.
\<close>

definition ReverseProxyHandler ::
    "(RouteResult \<Rightarrow> RouteResult) \<Rightarrow> (API \<Rightarrow> RequestCtx \<Rightarrow> RequestCtx)
      \<Rightarrow> (header \<Rightarrow> header \<Rightarrow> header) \<Rightarrow> bool \<Rightarrow> RouteResult list \<Rightarrow> RequestCtx
      \<Rightarrow> RequestCtx option" where
  "ReverseProxyHandler proxied RenderMock CopyTo stopped selected ctx =
     (if stopped then Some (ctx\<lparr>RespStatusCode := 503\<rparr>)
      else if selected = [] then Some (ctx\<lparr>RespStatusCode := 404\<rparr>)
      else
        (let count = length selected;
             merge = (1 < count);
             results = map (\<lambda>result. proxied (if merge then result\<lparr>Merge := merge\<rparr>
                                                else result)) selected
         in case errorLoop RenderMock merge ctx results of
              Returned ctx1 \<Rightarrow> Some ctx1
            | Panicked \<Rightarrow> None
            | Continue \<Rightarrow>
                (case headerLoop CopyTo (RespHeader ctx) results of
                   None \<Rightarrow> None
                 | Some h \<Rightarrow>
                     (case bodyLoop count 0 results of
                        None \<Rightarrow> None
                      | Some written \<Rightarrow>
                          Some (ctx\<lparr>RespHeader := SetContentType MergeContentType h,
                                     RespStatusCode := 200,
                                     RespBody := RespBody ctx @ ''{'' @ written @ ''}''\<rparr>)))))"




section \<open>Example values\<close>

text \<open>Two servers that differ in their check interval, 5 and 4 seconds.\<close>

definition srv5 :: Server where
  "srv5 = zeroServer\<lparr>Schema := ''http'', Addr := ''10.0.0.1:80'', CheckPath := ''/check'',
            CheckDuration := 5, useCheckDuration := 5\<rparr>"

definition srv4 :: Server where
  "srv4 = zeroServer\<lparr>Schema := ''http'', Addr := ''10.0.0.2:80'', CheckPath := ''/check'',
            CheckDuration := 4, useCheckDuration := 4\<rparr>"

text \<open>
  The empty route table, with every reference at a zero object, and a server as a caller
  might hand it to \<open>AddNewServer\<close>: marked \<open>Up\<close> and with its circuit closed.
\<close>

definition zeroCluster :: Cluster where
  "zeroCluster = \<lparr>Name = [], LbName = [], activeServers = []\<rparr>"

definition emptyTable :: RouteTable where
  "emptyTable = \<lparr>clusters = Map.empty, svrs = Map.empty, mapping = Map.empty, apis = [],
     routings = [], tw = Map.empty, evtChan = [], analysiser = Map.empty,
     servers = (\<lambda>p. zeroServer), clusterObjs = (\<lambda>c. zeroCluster)\<rparr>"

definition srvUp :: Server where
  "srvUp = srv5\<lparr>Status := Up, prevStatus := Up, circuit := CircuitClose\<rparr>"

definition tableWithCaller :: RouteTable where
  "tableWithCaller = emptyTable\<lparr>servers := (servers emptyTable)(1 := srvUp)\<rparr>"

text \<open>
  A table with one server, up and bound to the cluster \<open>c1\<close>, with its client, its
  timer and its window in the analyzer; and the table that \<open>AddNewServer\<close> makes of
  the empty table and the caller's server when the first probe fails.  \<open>tableBuilt\<close>
  is the table that the operations make of the objects of the caller: the cluster and the
  server are added, the first probe succeeds, the server is bound, the timer fires with
  another good probe, and the worker takes the server off the channel.
\<close>

definition clusterOne :: Cluster where
  "clusterOne = \<lparr>Name = ''c1'', LbName = ''ROUNDROBIN'', activeServers = [''10.0.0.1:80'']\<rparr>"

definition tableBound :: RouteTable where
  "tableBound = emptyTable\<lparr>
     clusters := [''c1'' \<mapsto> 1],
     svrs := [''10.0.0.1:80'' \<mapsto> 1],
     mapping := [''10.0.0.1:80'' \<mapsto> [(''c1'', 1)]],
     tw := [''10.0.0.1:80'' \<mapsto> 5],
     analysiser := [''10.0.0.1:80'' \<mapsto> [1]],
     servers := (servers emptyTable)(1 := (init srv5)\<lparr>Status := Up, prevStatus := Up\<rparr>),
     clusterObjs := (clusterObjs emptyTable)(1 := clusterOne)\<rparr>"

definition tableStart :: RouteTable where
  "tableStart = emptyTable\<lparr>
     servers := (servers emptyTable)(1 := srv5),
     clusterObjs := (clusterObjs emptyTable)(1 := clusterOne\<lparr>activeServers := []\<rparr>)\<rparr>"

definition tableBuilt :: "RouteTable option" where
  "tableBuilt =
     (case Bind ''10.0.0.1:80'' ''c1''
             (snd (AddNewServer (GetResponse 200 (Some [])) 1
                (snd (AddNewCluster 1 tableStart)))) of
        None \<Rightarrow> None
      | Some bound \<Rightarrow>
          (case RouteTable_check (GetResponse 200 (Some [])) ''10.0.0.1:80'' (snd bound) of
             None \<Rightarrow> None
           | Some checked \<Rightarrow> changed checked))"

definition tableAdded :: RouteTable where
  "tableAdded = snd (AddNewServer GetError 1 tableWithCaller)"

text \<open>
  Requests, APIs and a routing.  In the examples an API matches the requests whose URI
  begins with its URL, a routing matches the requests to the host in its \<open>Cfg\<close>, and
  the balancer picks the first active server.
\<close>

definition matchesPrefix :: "API \<Rightarrow> Request \<Rightarrow> bool" where
  "matchesPrefix api req = HasPrefix (RequestURI req) (URL api)"

definition matchesHost :: "Routing \<Rightarrow> Request \<Rightarrow> bool" where
  "matchesHost routing req = (Cfg routing = Host req)"

definition firstServer :: balancer where
  "firstServer req c = 0"

definition reqHello :: Request where
  "reqHello = \<lparr>RequestURI = ''/hello'', Host = ''example.org'', RequestMethod = ''GET''\<rparr>"

definition apiHello :: API where
  "apiHello = \<lparr>URL = ''/hello'', Method = ''GET'',
     Nodes = [\<lparr>ClusterName = ''c1'', Rewrite = [], AttrName = ''a''\<rparr>], Mock = None\<rparr>"

definition apiHel :: API where
  "apiHel = \<lparr>URL = ''/hel'', Method = ''GET'',
     Nodes = [\<lparr>ClusterName = ''c1'', Rewrite = [], AttrName = ''b''\<rparr>], Mock = None\<rparr>"

definition apiMissing :: API where
  "apiMissing = \<lparr>URL = ''/hello'', Method = ''GET'',
     Nodes = [\<lparr>ClusterName = ''missing'', Rewrite = [], AttrName = ''a''\<rparr>], Mock = None\<rparr>"

definition routingOne :: Routing where
  "routingOne = \<lparr>ID = ''r1'', RoutingClusterName = ''c1'', Cfg = ''example.org''\<rparr>"

definition tableTwoAPIs :: RouteTable where
  "tableTwoAPIs = tableBound\<lparr>apis := [(''/hello-GET'', apiHello), (''/hel-GET'', apiHel)]\<rparr>"

definition tableRouted :: RouteTable where
  "tableRouted = tableBound\<lparr>apis := [(''/hello-GET'', apiMissing)],
                              routings := [(''r1'', routingOne)]\<rparr>"

definition tableUnrouted :: RouteTable where
  "tableUnrouted = tableBound\<lparr>apis := [(''/hello-GET'', apiMissing)]\<rparr>"

definition routingGone :: Routing where
  "routingGone = \<lparr>ID = ''r2'', RoutingClusterName = ''gone'', Cfg = ''example.org''\<rparr>"

definition tableRoutedAway :: RouteTable where
  "tableRoutedAway = tableBound\<lparr>apis := [(''/hello-GET'', apiMissing)],
                                  routings := [(''r2'', routingGone), (''r1'', routingOne)]\<rparr>"

definition tableEmptyAddr :: RouteTable where
  "tableEmptyAddr = tableUnrouted\<lparr>svrs := (svrs tableUnrouted)([] \<mapsto> 1)\<rparr>"

text \<open>
  The table \<open>tableBound\<close> after the timer of its server has fired and the probe has
  succeeded, and after it has fired and the probe has failed.
\<close>

definition tableChecked :: RouteTable where
  "tableChecked = the (RouteTable_check (GetResponse 200 (Some [])) ''10.0.0.1:80'' tableBound)"

definition tableFailed :: RouteTable where
  "tableFailed = the (RouteTable_check GetError ''10.0.0.1:80'' tableBound)"

text \<open>
  For the proxy: a filter chain that counts, as its state, the requests seen by the pre
  filters and the failures seen by the post-error filters; a backend whose call is
  cancelled by the client, and one that cannot be reached; and the results of a merge of
  two nodes.
\<close>

record counters =
  requests :: nat
  failures :: nat

definition countingFilters :: "counters Filters" where
  "countingFilters = \<lparr>
     doPreFilters = (\<lambda>req result st. (([], 0, None), st\<lparr>requests := Suc (requests st)\<rparr>)),
     doPostFilters = (\<lambda>req result st. (([], 0, None), st)),
     doPostErrFilters = (\<lambda>req result st. st\<lparr>failures := Suc (failures st)\<rparr>)\<rparr>"

definition noNodeURL :: "API \<Rightarrow> Request \<Rightarrow> Node \<Rightarrow> string" where
  "noNodeURL api req node = []"

definition cancelledBackend :: "Request \<Rightarrow> string \<Rightarrow> backend" where
  "cancelledBackend req addr = Failed (ErrText ''request canceled by client'') None"

definition refusedBackend :: "Request \<Rightarrow> string \<Rightarrow> backend" where
  "refusedBackend req addr = Failed (ErrText ''connection refused'') None"

definition resultHello :: RouteResult where
  "resultHello = \<lparr>API = apiHello, Node = Some (hd (Nodes apiHello)), Svr = Some 1,
     Err = None, Code = 0, Res = None, Merge = False\<rparr>"

definition resultA :: RouteResult where
  "resultA = \<lparr>API = apiHello,
     Node = Some \<lparr>ClusterName = ''c1'', Rewrite = [], AttrName = ''a''\<rparr>, Svr = Some 1,
     Err = None, Code = 0,
     Res = Some \<lparr>StatusCode = 200,
       Header = [(''Content-Type'', ''application/json''), (''Content-Length'', ''7''),
                 (''X-A'', ''1''), (''Date'', ''Sun, 01 Nov 2026 10:00:00 GMT'')],
       Body = ''{'' @ [CHR 0x22] @ ''x'' @ [CHR 0x22] @ '':1}''\<rparr>,
     Merge = True\<rparr>"

definition resultB :: RouteResult where
  "resultB = \<lparr>API = apiHello,
     Node = Some \<lparr>ClusterName = ''c2'', Rewrite = [], AttrName = ''b''\<rparr>, Svr = Some 2,
     Err = None, Code = 0,
     Res = Some \<lparr>StatusCode = 200,
       Header = [(''Content-Length'', ''7''), (''Content-Type'', ''application/json''),
                 (''X-B'', ''2''), (''Date'', ''Sun, 01 Nov 2026 10:00:01 GMT'')],
       Body = ''{'' @ [CHR 0x22] @ ''y'' @ [CHR 0x22] @ '':2}''\<rparr>,
     Merge = True\<rparr>"

definition proxiedAB :: "RouteResult \<Rightarrow> RouteResult" where
  "proxiedAB result =
     (if map_option AttrName (Node result) = Some ''a'' then resultA else resultB)"

definition selectedAB :: "RouteResult list" where
  "selectedAB = [resultA\<lparr>Res := None, Merge := False\<rparr>, resultB\<lparr>Res := None, Merge := False\<rparr>]"

definition noMock :: "API \<Rightarrow> RequestCtx \<Rightarrow> RequestCtx" where
  "noMock api ctx = ctx"

definition overwrite :: "header \<Rightarrow> header \<Rightarrow> header" where
  "overwrite src dst = src"


definition ctxHello :: RequestCtx where
  "ctxHello = \<lparr>CtxRequest = reqHello, RespStatusCode = 200, RespHeader = [], RespBody = []\<rparr>"

section \<open>Health-check back-off\<close>

lemma sint_backoff:
  assumes "0 \<le> sint d" "sint d + sint d div 2 < 2 ^ 63"
  shows "sint (d + go_div d 2) = sint d + sint d div 2"
proof -
  have q: "sint d sdiv 2 = sint d div 2"
    using assms(1) by (simp add: signed_divide_int_def sgn_if)
  have r: "- (2 ^ 63) \<le> sint d div 2" "sint d div 2 < 2 ^ 63"
    using assms by simp_all
  have h: "sint (go_div d 2) = sint d div 2"
    using r by (simp add: go_div_def q sint_sbintrunc' signed_take_bit_int_eq_self)
  show ?thesis
    using assms by (simp add: sint_word_add h signed_take_bit_int_eq_self)
qed

lemma check_succ_cong:
  "CheckResponsedBody s' = CheckResponsedBody s \<Longrightarrow> check_succ s' p = check_succ s p"
  by (cases p) (auto simp: check_succ_def split: option.splits)

lemma check_succ_fail [simp]: "check_succ (fail s) p = check_succ s p"
  by (rule check_succ_cong) (simp add: fail_def)

lemma checks_failing:
  "\<forall>p\<in>set ps. \<not> check_succ s p \<Longrightarrow>
   useCheckDuration (checks s ps) = ((\<lambda>d. d + go_div d 2) ^^ length ps) (useCheckDuration s)"
proof (induction ps arbitrary: s)
  case Nil
  then show ?case by simp
next
  case (Cons p ps)
  define f where "f = (\<lambda>d::go_int. d + go_div d 2)"
  have "useCheckDuration (checks (fail s) ps) = (f ^^ length ps) (useCheckDuration (fail s))"
    unfolding f_def using Cons.prems by (intro Cons.IH) simp
  moreover have "useCheckDuration (fail s) = f (useCheckDuration s)"
    by (simp add: fail_def f_def)
  moreover have "checks s (p # ps) = checks (fail s) ps"
    using Cons.prems by (simp add: check_def)
  moreover have "(f ^^ length (p # ps)) (useCheckDuration s) = (f ^^ length ps) (f (useCheckDuration s))"
    by (simp add: funpow_swap1)
  ultimately show ?case unfolding f_def by simp
qed

lemma checks_exact:
  assumes "\<forall>p\<in>set ps. \<not> check_succ s p"
    and "sint (useCheckDuration s) = 2 ^ N * m" and "0 \<le> m" and "3 ^ N * m < 2 ^ 63"
    and "length ps \<le> N"
  shows "sint (useCheckDuration (checks s ps)) * 2 ^ length ps = 3 ^ length ps * sint (useCheckDuration s)"
  using assms
proof (induction ps arbitrary: s N m)
  case Nil
  then show ?case by simp
next
  case (Cons p ps)
  then obtain K where N: "N = Suc K" by (cases N) auto
  let ?d = "useCheckDuration s"
  have d: "sint ?d = 2 * (2 ^ K * m)" using Cons.prems(2) N by simp
  have half: "sint ?d div 2 = 2 ^ K * m" using d by simp
  have "(2::int) ^ K \<le> 3 ^ K" by (rule power_mono) simp_all
  then have "2 ^ K * m \<le> 3 ^ K * m" using Cons.prems(3) by (rule mult_right_mono)
  then have "3 * (2 ^ K * m) \<le> 3 * (3 ^ K * m)" by simp
  also have "\<dots> = 3 ^ N * m" using N by simp
  finally have "3 * (2 ^ K * m) < 2 ^ 63" using Cons.prems(4) by linarith
  then have bound: "sint ?d + sint ?d div 2 < 2 ^ 63"
    unfolding half d by linarith
  have nn: "0 \<le> sint ?d" using d Cons.prems(3) by simp
  have step: "sint (useCheckDuration (fail s)) = 2 ^ K * (3 * m)"
    using sint_backoff [OF nn bound] d half by (simp add: fail_def)
  have IH: "sint (useCheckDuration (checks (fail s) ps)) * 2 ^ length ps
      = 3 ^ length ps * sint (useCheckDuration (fail s))"
  proof (rule Cons.IH [OF _ step])
    show "\<forall>p\<in>set ps. \<not> check_succ (fail s) p" using Cons.prems(1) by simp
    show "0 \<le> 3 * m" using Cons.prems(3) by simp
    show "3 ^ K * (3 * m) < 2 ^ 63" using Cons.prems(4) N by (simp add: mult.assoc)
    show "length ps \<le> K" using Cons.prems(5) N by simp
  qed
  have "checks s (p # ps) = checks (fail s) ps" using Cons.prems(1) by (simp add: check_def)
  then show ?case using IH step d by (simp add: algebra_simps)
qed

text \<open>
  C6, as the code has it.  Each failed check replaces the interval \<open>d\<close> by
  \<open>d + d / 2\<close> in Go's integer arithmetic, where the quotient is truncated.  The
  intervals are the geometric sequence \<open>d\<^sub>0, 1.5 d\<^sub>0, 2.25 d\<^sub>0, \<dots>\<close> exactly as long as
  the halvings are exact: when \<open>d\<^sub>0 = 2\<^sup>N m\<close> (and \<open>3\<^sup>N m\<close> fits in 64 bits), the interval
  after \<open>k \<le> N\<close> consecutive failures is \<open>d\<^sub>0 (3/2)\<^sup>k\<close>.
\<close>

theorem fail_backoff_geometric:
  assumes "\<forall>p\<in>set ps. \<not> check_succ s p"
    and "sint (useCheckDuration s) = 2 ^ N * m" and "0 \<le> m" and "3 ^ N * m < 2 ^ 63"
    and "length ps \<le> N"
  shows "useCheckDuration (checks s ps)
           = ((\<lambda>d. d + go_div d 2) ^^ length ps) (useCheckDuration s)
         \<and> sint (useCheckDuration (checks s ps)) * 2 ^ length ps
           = 3 ^ length ps * sint (useCheckDuration s)"
  using checks_failing [OF assms(1)] checks_exact [OF assms] by simp

theorem fail_backoff_geometric_witness:
  "\<not> check_succ srv4 GetError
   \<and> sint (useCheckDuration srv4) = 2 ^ 2 * 1
   \<and> sint (useCheckDuration (checks srv4 [GetError, GetError])) * 2 ^ 2
       = 3 ^ 2 * sint (useCheckDuration srv4)"
proof -
  have a: "\<forall>p\<in>set [GetError, GetError]. \<not> check_succ srv4 p"
    by (simp add: check_succ_def)
  have b: "sint (useCheckDuration srv4) = 2 ^ 2 * 1"
    by (simp add: srv4_def zeroServer_def)
  have c: "sint (useCheckDuration (checks srv4 [GetError, GetError])) * 2 ^ 2
      = 3 ^ 2 * sint (useCheckDuration srv4)"
    using fail_backoff_geometric [OF a b, THEN conjunct2] by simp
  show ?thesis using a b c by simp
qed

text \<open>
  C6, as the spec states it, fails where a halving is not exact: from the default
  interval of 5 seconds one failure leads to 7 seconds, and twice 7 is not three times 5.
\<close>

theorem fail_backoff_counterexample:
  "2 * sint (useCheckDuration (checks srv5 [GetError])) \<noteq> 3 * sint (useCheckDuration srv5)"
  by (simp add: check_def check_succ_def fail_def srv5_def zeroServer_def go_div_def
      signed_divide_int_def)

section \<open>Round trip of a Server through its serialization\<close>

lemma asInt_sint: "asInt (JNumber (sint (w :: go_int))) = Some w"
proof -
  have "- (2 ^ 63) \<le> sint w" "sint w < 2 ^ 63"
    using sint_ge [of w] sint_lt [of w] by simp_all
  then show ?thesis by (simp add: asInt_def)
qed

lemma asStrings_list_map:
  "asStrings_list (map (\<lambda>x. JString (f x)) xs) = Some (map f xs)"
  by (induction xs) (simp_all add: asString_def)

declare asInt_sint [simp] asStrings_list_map [simp]

text \<open>A string that is valid UTF-8 is written as it is.\<close>

lemma coerceFrom_valid: "validFrom k s \<Longrightarrow> coerceFrom k s = s"
proof (induction s arbitrary: k)
  case Nil
  then show ?case by simp
next
  case (Cons c cs)
  show ?case
  proof (cases k)
    case 0
    then show ?thesis
      using Cons.prems Cons.IH by (cases "runeLen (c # cs)") simp_all
  next
    case (Suc j)
    then show ?thesis
      using Cons.prems Cons.IH by simp
  qed
qed

lemma coerceUTF8_valid: "ValidString s \<Longrightarrow> coerceUTF8 s = s"
  by (simp add: ValidString_def coerceUTF8_def coerceFrom_valid)

lemma coerceUTF8_Nil: "coerceUTF8 [] = []"
  by (simp add: coerceUTF8_def)

lemma map_coerceUTF8_valid: "list_all ValidString xs \<Longrightarrow> map coerceUTF8 xs = xs"
  by (induction xs) (simp_all add: coerceUTF8_valid)

lemma member_schema:
  "Schema v = [] \<Longrightarrow>
   foldl setMember v (omitString ''schema'' x) = v\<lparr>Schema := coerceUTF8 x\<rparr>"
  by (cases v) (simp add: omitString_def setMember_def setString_def asString_def coerceUTF8_def)

lemma member_addr:
  "Addr v = [] \<Longrightarrow>
   foldl setMember v (omitString ''addr'' x) = v\<lparr>Addr := coerceUTF8 x\<rparr>"
  by (cases v) (simp add: omitString_def setMember_def setString_def asString_def coerceUTF8_def)

lemma member_external:
  "\<not> External v \<Longrightarrow>
   foldl setMember v (omitBool ''external'' x) = v\<lparr>External := x\<rparr>"
  by (cases v) (simp add: omitBool_def setMember_def asBool_def)

lemma member_checkPath:
  "CheckPath v = [] \<Longrightarrow>
   foldl setMember v (omitString ''checkPath'' x) = v\<lparr>CheckPath := coerceUTF8 x\<rparr>"
  by (cases v) (simp add: omitString_def setMember_def setString_def asString_def coerceUTF8_def)

lemma member_checkDuration:
  "CheckDuration v = 0 \<Longrightarrow>
   foldl setMember v (omitInt ''checkDuration'' x) = v\<lparr>CheckDuration := x\<rparr>"
  by (cases v) (simp add: omitInt_def setMember_def setInt_def)

lemma member_checkTimeout:
  "CheckTimeout v = 0 \<Longrightarrow>
   foldl setMember v (omitInt ''checkTimeout'' x) = v\<lparr>CheckTimeout := x\<rparr>"
  by (cases v) (simp add: omitInt_def setMember_def setInt_def)

lemma member_status:
  "Status v = 0 \<Longrightarrow>
   foldl setMember v (omitInt ''status'' x) = v\<lparr>Status := x\<rparr>"
  by (cases v) (simp add: omitInt_def setMember_def setInt_def)

lemma member_maxQPS:
  "MaxQPS v = 0 \<Longrightarrow>
   foldl setMember v (omitInt ''maxQPS'' x) = v\<lparr>MaxQPS := x\<rparr>"
  by (cases v) (simp add: omitInt_def setMember_def setInt_def)

lemma member_halfToOpenSeconds:
  "HalfToOpenSeconds v = 0 \<Longrightarrow>
   foldl setMember v (omitInt ''halfToOpenSeconds'' x) = v\<lparr>HalfToOpenSeconds := x\<rparr>"
  by (cases v) (simp add: omitInt_def setMember_def setInt_def)

lemma member_halfTrafficRate:
  "HalfTrafficRate v = 0 \<Longrightarrow>
   foldl setMember v (omitInt ''halfTrafficRate'' x) = v\<lparr>HalfTrafficRate := x\<rparr>"
  by (cases v) (simp add: omitInt_def setMember_def setInt_def)

lemma member_halfToOpenSucceedRate:
  "HalfToOpenSucceedRate v = 0 \<Longrightarrow>
   foldl setMember v (omitInt ''halfToOpenSucceedRate'' x) = v\<lparr>HalfToOpenSucceedRate := x\<rparr>"
  by (cases v) (simp add: omitInt_def setMember_def setInt_def)

lemma member_halfToOpenCollectSeconds:
  "HalfToOpenCollectSeconds v = 0 \<Longrightarrow>
   foldl setMember v (omitInt ''halfToOpenCollectSeconds'' x) = v\<lparr>HalfToOpenCollectSeconds := x\<rparr>"
  by (cases v) (simp add: omitInt_def setMember_def setInt_def)

lemma member_openToCloseFailureRate:
  "OpenToCloseFailureRate v = 0 \<Longrightarrow>
   foldl setMember v (omitInt ''openToCloseFailureRate'' x) = v\<lparr>OpenToCloseFailureRate := x\<rparr>"
  by (cases v) (simp add: omitInt_def setMember_def setInt_def)

lemma member_openToCloseCollectSeconds:
  "OpenToCloseCollectSeconds v = 0 \<Longrightarrow>
   foldl setMember v (omitInt ''openToCloseCollectSeconds'' x) = v\<lparr>OpenToCloseCollectSeconds := x\<rparr>"
  by (cases v) (simp add: omitInt_def setMember_def setInt_def)

lemma member_bindClusters:
  "BindClusters v = [] \<Longrightarrow>
   foldl setMember v (omitStrings ''bindClusters'' x) = v\<lparr>BindClusters := map coerceUTF8 x\<rparr>"
  by (cases v) (simp add: omitStrings_def setMember_def asStrings_def coerceUTF8_def)

lemma member_checkResponsedBody:
  "setMember v (''checkResponsedBody'', JString x) = v\<lparr>CheckResponsedBody := x\<rparr>"
  by (simp add: setMember_def setString_def asString_def)

lemmas members = member_schema member_addr member_external member_checkPath member_checkDuration member_checkTimeout member_status member_maxQPS member_halfToOpenSeconds member_halfTrafficRate member_halfToOpenSucceedRate member_halfToOpenCollectSeconds member_openToCloseFailureRate member_openToCloseCollectSeconds member_bindClusters member_checkResponsedBody

lemma Unmarshal_Marshal:
  "Unmarshal (Marshal s) zeroServer =
     s\<lparr>Schema := coerceUTF8 (Schema s), Addr := coerceUTF8 (Addr s),
       CheckPath := coerceUTF8 (CheckPath s),
       CheckResponsedBody := coerceUTF8 (CheckResponsedBody s),
       BindClusters := map coerceUTF8 (BindClusters s),
       httpClient := None, checkFailCount := 0, prevStatus := 0, useCheckDuration := 0,
       circuit := 0, checkStopped := False\<rparr>"
  by (cases s) (simp add: Unmarshal_def Marshal_def zeroServer_def members)

lemma UnMarshalServer_Marshal_coerced_general:
  "UnMarshalServer (Marshal s) =
     s\<lparr>Schema := coerceUTF8 (Schema s), Addr := coerceUTF8 (Addr s),
       CheckPath := coerceUTF8 (CheckPath s),
       CheckResponsedBody := coerceUTF8 (CheckResponsedBody s),
       CheckTimeout := (if CheckTimeout s = 0 then 3 else CheckTimeout s),
       BindClusters := map coerceUTF8 (BindClusters s),
       httpClient := None, checkFailCount := 0, prevStatus := 0, useCheckDuration := 0,
       circuit := 0, checkStopped := False\<rparr>"
  by (cases s)
    (simp add: UnMarshalServer_def Unmarshal_Marshal DefaultCheckTimeoutInSeconds_def)

text \<open>
  C9, as the code has it.  Reading back what \<open>Marshal\<close> wrote gives the server again on
  every serialized field, except that a \<open>CheckTimeout\<close> of zero comes back as the
  default of 3 seconds, and that the strings (\<open>Schema\<close>, \<open>Addr\<close>, \<open>CheckPath\<close>,
  \<open>CheckResponsedBody\<close> and the entries of \<open>BindClusters\<close>) come back as the encoder
  wrote them, with U+FFFD for each byte that is not part of well-formed UTF-8.  For a
  server whose strings are valid UTF-8 these are the strings themselves.  The fields that
  are not serialized come back with their zero values.
\<close>

theorem UnMarshalServer_Marshal_coerced:
  "UnMarshalServer (Marshal s) =
     s\<lparr>Schema := coerceUTF8 (Schema s), Addr := coerceUTF8 (Addr s),
       CheckPath := coerceUTF8 (CheckPath s),
       CheckResponsedBody := coerceUTF8 (CheckResponsedBody s),
       CheckTimeout := (if CheckTimeout s = 0 then 3 else CheckTimeout s),
       BindClusters := map coerceUTF8 (BindClusters s),
       httpClient := None, checkFailCount := 0, prevStatus := 0, useCheckDuration := 0,
       circuit := 0, checkStopped := False\<rparr>
   \<and> (ValidString (Schema s) \<and> ValidString (Addr s) \<and> ValidString (CheckPath s)
        \<and> ValidString (CheckResponsedBody s) \<and> list_all ValidString (BindClusters s) \<longrightarrow>
      UnMarshalServer (Marshal s) =
        s\<lparr>CheckTimeout := (if CheckTimeout s = 0 then 3 else CheckTimeout s),
          httpClient := None, checkFailCount := 0, prevStatus := 0, useCheckDuration := 0,
          circuit := 0, checkStopped := False\<rparr>)"
proof -
  have g: "UnMarshalServer (Marshal s) =
     s\<lparr>Schema := coerceUTF8 (Schema s), Addr := coerceUTF8 (Addr s),
       CheckPath := coerceUTF8 (CheckPath s),
       CheckResponsedBody := coerceUTF8 (CheckResponsedBody s),
       CheckTimeout := (if CheckTimeout s = 0 then 3 else CheckTimeout s),
       BindClusters := map coerceUTF8 (BindClusters s),
       httpClient := None, checkFailCount := 0, prevStatus := 0, useCheckDuration := 0,
       circuit := 0, checkStopped := False\<rparr>"
    by (rule UnMarshalServer_Marshal_coerced_general)
  show ?thesis
  proof (intro conjI impI)
    show "UnMarshalServer (Marshal s) =
     s\<lparr>Schema := coerceUTF8 (Schema s), Addr := coerceUTF8 (Addr s),
       CheckPath := coerceUTF8 (CheckPath s),
       CheckResponsedBody := coerceUTF8 (CheckResponsedBody s),
       CheckTimeout := (if CheckTimeout s = 0 then 3 else CheckTimeout s),
       BindClusters := map coerceUTF8 (BindClusters s),
       httpClient := None, checkFailCount := 0, prevStatus := 0, useCheckDuration := 0,
       circuit := 0, checkStopped := False\<rparr>"
      by (rule g)
  next
    assume v: "ValidString (Schema s) \<and> ValidString (Addr s) \<and> ValidString (CheckPath s)
        \<and> ValidString (CheckResponsedBody s) \<and> list_all ValidString (BindClusters s)"
    show "UnMarshalServer (Marshal s) =
        s\<lparr>CheckTimeout := (if CheckTimeout s = 0 then 3 else CheckTimeout s),
          httpClient := None, checkFailCount := 0, prevStatus := 0, useCheckDuration := 0,
          circuit := 0, checkStopped := False\<rparr>"
      using v by (simp add: g coerceUTF8_valid map_coerceUTF8_valid)
  qed
qed

lemma ValidString_examples:
  "ValidString ''http''" "ValidString ''10.0.0.1:80''" "ValidString ''/check''"
  "ValidString []" "ValidString ''c1''"
  by (simp_all add: ValidString_def runeLen_def runeSize_def)

theorem UnMarshalServer_Marshal_coerced_witness:
  "ValidString (Schema (srv5\<lparr>BindClusters := [''c1'']\<rparr>))
   \<and> ValidString (Addr (srv5\<lparr>BindClusters := [''c1'']\<rparr>))
   \<and> ValidString (CheckPath (srv5\<lparr>BindClusters := [''c1'']\<rparr>))
   \<and> ValidString (CheckResponsedBody (srv5\<lparr>BindClusters := [''c1'']\<rparr>))
   \<and> list_all ValidString (BindClusters (srv5\<lparr>BindClusters := [''c1'']\<rparr>))
   \<and> UnMarshalServer (Marshal (srv5\<lparr>BindClusters := [''c1'']\<rparr>))
       = srv5\<lparr>BindClusters := [''c1''], CheckTimeout := 3, useCheckDuration := 0\<rparr>"
proof -
  let ?s = "srv5\<lparr>BindClusters := [''c1'']\<rparr>"
  have v: "ValidString (Schema ?s) \<and> ValidString (Addr ?s) \<and> ValidString (CheckPath ?s)
        \<and> ValidString (CheckResponsedBody ?s) \<and> list_all ValidString (BindClusters ?s)"
    by (simp add: srv5_def zeroServer_def ValidString_examples)
  have "UnMarshalServer (Marshal ?s) =
        ?s\<lparr>CheckTimeout := (if CheckTimeout ?s = 0 then 3 else CheckTimeout ?s),
          httpClient := None, checkFailCount := 0, prevStatus := 0, useCheckDuration := 0,
          circuit := 0, checkStopped := False\<rparr>"
    using v UnMarshalServer_Marshal_coerced [of ?s, THEN conjunct2] by blast
  then have "UnMarshalServer (Marshal ?s)
       = srv5\<lparr>BindClusters := [''c1''], CheckTimeout := 3, useCheckDuration := 0\<rparr>"
    by (simp add: srv5_def zeroServer_def)
  then show ?thesis using v by simp
qed

text \<open>
  C9, as the spec states it, fails for a string that is not valid UTF-8: the address of
  one byte \<open>0xFF\<close> comes back as the three bytes of U+FFFD.
\<close>

theorem UnMarshalServer_Marshal_invalid:
  "Addr (UnMarshalServer (Marshal (zeroServer\<lparr>Addr := [CHR 0xFF]\<rparr>)))
     = [CHR 0xEF, CHR 0xBF, CHR 0xBD]
   \<and> Addr (UnMarshalServer (Marshal (zeroServer\<lparr>Addr := [CHR 0xFF]\<rparr>)))
     \<noteq> Addr (zeroServer\<lparr>Addr := [CHR 0xFF]\<rparr>)"
proof -
  have "coerceUTF8 [CHR 0xFF] = [CHR 0xEF, CHR 0xBF, CHR 0xBD]"
    by (simp add: coerceUTF8_def runeLen_def runeSize_def)
  then show ?thesis
    using UnMarshalServer_Marshal_coerced_general [of "zeroServer\<lparr>Addr := [CHR 0xFF]\<rparr>"]
    by simp
qed

section \<open>Adding a server\<close>

lemmas example_defs = tableBound_def tableWithCaller_def tableAdded_def emptyTable_def
  clusterOne_def srv5_def srvUp_def zeroServer_def zeroCluster_def Up_def Down_def
  init_def getCheckTimeout_def DefaultCheckTimeoutInSeconds_def CircuitOpen_def

lemma Up_neq_Down: "Up \<noteq> Down" by (simp add: Up_def Down_def)

lemma check_fields:
  "Status (snd (check s pr)) = Status s" "prevStatus (snd (check s pr)) = prevStatus s"
  "circuit (snd (check s pr)) = circuit s" "External (snd (check s pr)) = External s"
  "Addr (snd (check s pr)) = Addr s" "checkStopped (snd (check s pr)) = checkStopped s"
  "fst (check s pr) = check_succ s pr"
  by (simp_all add: check_def reset_def fail_def Let_def)

lemma addToCheck_server:
  "servers (addToCheck pr p rt) p =
     changeTo (if check_succ (servers rt p) pr then Up else Down) (snd (check (servers rt p) pr))"
  by (simp add: addToCheck_def Let_def check_fields)

lemma addToCheck_Status:
  "Status (servers (addToCheck pr p rt) p) = (if check_succ (servers rt p) pr then Up else Down)"
  by (simp add: addToCheck_server changeTo_def)

text \<open>The timer that \<open>addToCheck\<close> sets runs for the interval the check has left.\<close>

lemma addToCheck_schedules:
  "tw (addToCheck pr p rt) (Addr (servers rt p))
     = Some (useCheckDuration (snd (check (servers rt p) pr)))"
  by (simp add: addToCheck_def Let_def changeTo_def check_fields)

lemma registerServer_server:
  "servers (registerServer p rt) p =
     init ((servers rt p)\<lparr>prevStatus := Down, Status := Down,
                           useCheckDuration := CheckDuration (servers rt p)\<rparr>)"
  by (simp add: registerServer_def Let_def)

lemma analyseServer_fields:
  "servers (analyseServer p rt) = servers rt" "svrs (analyseServer p rt) = svrs rt"
  by (simp_all add: analyseServer_def Let_def AddRecentCount_def addNewAnalysis_def)

lemma startServer_svrs: "svrs (startServer pr p rt) = svrs rt"
  by (simp add: startServer_def addToCheck_def Let_def)

text \<open>
  C10.  A server that \<open>AddNewServer\<close> accepts is registered under its address with
  status \<open>Down\<close>, previous status \<open>Down\<close> and circuit \<open>CircuitOpen\<close>, whatever
  these fields held in the input.  When \<open>AddNewServer\<close> returns, the previous status
  is still \<open>Down\<close> and the circuit open, and the status is \<open>Up\<close> exactly when the
  server is external or its first health check (made by \<open>addToCheck\<close> on the way)
  succeeded.  Every later \<open>addToCheck\<close> sets the status to \<open>Up\<close> exactly when its
  check succeeds.
\<close>

theorem AddNewServer_registers:
  assumes "svrs rt (Addr (servers rt p)) = None"
  shows "fst (AddNewServer pr p rt) = None
    \<and> svrs (snd (AddNewServer pr p rt)) (Addr (servers rt p)) = Some p
    \<and> Status (servers (registerServer p rt) p) = Down
    \<and> prevStatus (servers (registerServer p rt) p) = Down
    \<and> circuit (servers (registerServer p rt) p) = CircuitOpen
    \<and> prevStatus (servers (snd (AddNewServer pr p rt)) p) = Down
    \<and> circuit (servers (snd (AddNewServer pr p rt)) p) = CircuitOpen
    \<and> Status (servers (snd (AddNewServer pr p rt)) p)
        = (if External (servers rt p) \<or> check_succ (servers rt p) pr then Up else Down)
    \<and> Status (servers (addToCheck pr' p rt) p)
        = (if check_succ (servers rt p) pr' then Up else Down)"
proof -
  let ?s = "servers rt p"
  let ?r = "registerServer p rt"
  have r: "servers ?r p = init (?s\<lparr>prevStatus := Down, Status := Down,
      useCheckDuration := CheckDuration ?s\<rparr>)"
    by (rule registerServer_server)
  have r1: "Status (servers ?r p) = Down" "prevStatus (servers ?r p) = Down"
    "circuit (servers ?r p) = CircuitOpen" "External (servers ?r p) = External ?s"
    "CheckResponsedBody (servers ?r p) = CheckResponsedBody ?s"
    by (simp_all add: r init_def)
  have cs: "check_succ (servers ?r p) pr = check_succ ?s pr"
    by (rule check_succ_cong) (rule r1)
  have st: "servers (startServer pr p ?r) p =
      (if External ?s then changeTo Up (servers ?r p)
       else changeTo (if check_succ ?s pr then Up else Down) (snd (check (servers ?r p) pr)))"
    by (simp add: startServer_def r1 addToCheck_server cs)
  have fin: "servers (snd (AddNewServer pr p rt)) p = servers (startServer pr p ?r) p"
    using assms by (simp add: AddNewServer_def analyseServer_fields)
  have "svrs (snd (AddNewServer pr p rt)) (Addr ?s) = Some p"
    using assms by (simp add: AddNewServer_def analyseServer_fields startServer_svrs
        registerServer_def Let_def)
  moreover have "fst (AddNewServer pr p rt) = None"
    using assms by (simp add: AddNewServer_def)
  moreover have "prevStatus (servers (snd (AddNewServer pr p rt)) p) = Down"
    by (simp add: fin st changeTo_def r1 check_fields)
  moreover have "circuit (servers (snd (AddNewServer pr p rt)) p) = CircuitOpen"
    by (simp add: fin st changeTo_def r1 check_fields)
  moreover have "Status (servers (snd (AddNewServer pr p rt)) p)
        = (if External ?s \<or> check_succ ?s pr then Up else Down)"
    by (simp add: fin st changeTo_def)
  ultimately show ?thesis
    using r1 addToCheck_Status by simp
qed

theorem AddNewServer_registers_witness:
  "svrs tableWithCaller (Addr (servers tableWithCaller 1)) = None
   \<and> Status (servers tableWithCaller 1) = Up
   \<and> circuit (servers tableWithCaller 1) = CircuitClose
   \<and> fst (AddNewServer GetError 1 tableWithCaller) = None
   \<and> Status (servers (registerServer 1 tableWithCaller) 1) = Down
   \<and> circuit (servers (snd (AddNewServer GetError 1 tableWithCaller)) 1) = CircuitOpen
   \<and> Status (servers (snd (AddNewServer GetError 1 tableWithCaller)) 1) = Down"
proof -
  have a: "svrs tableWithCaller (Addr (servers tableWithCaller 1)) = None"
    by (simp add: tableWithCaller_def emptyTable_def)
  have b: "Status (servers tableWithCaller 1) = Up" "circuit (servers tableWithCaller 1) = CircuitClose"
    "\<not> External (servers tableWithCaller 1)" "\<not> check_succ (servers tableWithCaller 1) GetError"
    by (simp_all add: tableWithCaller_def emptyTable_def srvUp_def srv5_def zeroServer_def check_succ_def)
  show ?thesis
    using a b AddNewServer_registers [OF a, of GetError GetError] by simp
qed

section \<open>Deleting a server\<close>

lemma unbind_idem: "unbind svr (unbind svr c) = unbind svr c"
  by (simp add: unbind_def)

lemma bind_idem: "bind svr (bind svr c) = bind svr c"
  by (simp add: bind_def)

lemma foldl_unbindAt_fields:
  "svrs (foldl (unbindAt svr) rt cs) = svrs rt"
  "servers (foldl (unbindAt svr) rt cs) = servers rt"
  "tw (foldl (unbindAt svr) rt cs) = tw rt"
  "mapping (foldl (unbindAt svr) rt cs) = mapping rt"
  "analysiser (foldl (unbindAt svr) rt cs) = analysiser rt"
  "evtChan (foldl (unbindAt svr) rt cs) = evtChan rt"
  by (induction cs arbitrary: rt; simp add: unbindAt_def)+

lemma foldl_unbindAt_clusterObjs:
  "clusterObjs (foldl (unbindAt svr) rt cs) c =
     (if c \<in> set cs then unbind svr (clusterObjs rt c) else clusterObjs rt c)"
  by (induction cs arbitrary: rt) (auto simp: unbindAt_def unbind_idem)

lemma foldl_bindAt_clusterObjs:
  "clusterObjs (foldl (bindAt svr) rt cs) c =
     (if c \<in> set cs then bind svr (clusterObjs rt c) else clusterObjs rt c)"
  by (induction cs arbitrary: rt) (auto simp: bindAt_def bind_idem)

lemma foldl_bindAt_evtChan: "evtChan (foldl (bindAt svr) rt cs) = evtChan rt"
  by (induction cs arbitrary: rt) (simp_all add: bindAt_def)

text \<open>
  C2, as the code has it.  For a server in the table, \<open>DeleteServer\<close> returns no
  error, takes the server out of the server map, stops its check and cancels its timer,
  drops its entry in \<open>mapping\<close> and takes it out of the active servers of every
  cluster it was bound to.  The analyzer is left as it was: \<open>DeleteServer\<close> makes no
  call to it.
\<close>

theorem DeleteServer_effects:
  assumes "svrs rt serverAddr = Some p"
  shows "fst (DeleteServer serverAddr rt) = None
    \<and> svrs (snd (DeleteServer serverAddr rt)) serverAddr = None
    \<and> checkStopped (servers (snd (DeleteServer serverAddr rt)) p)
    \<and> tw (snd (DeleteServer serverAddr rt)) (Addr (servers rt p)) = None
    \<and> mapping (snd (DeleteServer serverAddr rt)) (Addr (servers rt p)) = None
    \<and> (\<forall>c\<in>snd ` set (bindedOf rt (Addr (servers rt p))).
          Addr (servers rt p) \<notin> set (activeServers (clusterObjs (snd (DeleteServer serverAddr rt)) c)))
    \<and> analysiser (snd (DeleteServer serverAddr rt)) = analysiser rt"
  using assms
  by (simp add: DeleteServer_def Let_def foldl_unbindAt_fields foldl_unbindAt_clusterObjs
      removeFromCheck_def stopCheck_def bindedOf_def unbind_def)

theorem DeleteServer_effects_witness:
  "svrs tableBound ''10.0.0.1:80'' = Some 1
   \<and> tw tableBound ''10.0.0.1:80'' = Some 5
   \<and> ''10.0.0.1:80'' \<in> set (activeServers (clusterObjs tableBound 1))
   \<and> fst (DeleteServer ''10.0.0.1:80'' tableBound) = None
   \<and> svrs (snd (DeleteServer ''10.0.0.1:80'' tableBound)) ''10.0.0.1:80'' = None
   \<and> tw (snd (DeleteServer ''10.0.0.1:80'' tableBound)) ''10.0.0.1:80'' = None
   \<and> ''10.0.0.1:80''
        \<notin> set (activeServers (clusterObjs (snd (DeleteServer ''10.0.0.1:80'' tableBound)) 1))"
proof -
  have a: "svrs tableBound ''10.0.0.1:80'' = Some 1"
    by (simp add: example_defs)
  have b: "Addr (servers tableBound 1) = ''10.0.0.1:80''"
    "bindedOf tableBound ''10.0.0.1:80'' = [(''c1'', 1)]"
    "tw tableBound ''10.0.0.1:80'' = Some 5"
    "''10.0.0.1:80'' \<in> set (activeServers (clusterObjs tableBound 1))"
    by (simp_all add: example_defs bindedOf_def)
  show ?thesis
    using a b DeleteServer_effects [OF a] by simp
qed

text \<open>
  C2, as the spec states it, fails on the analyzer: the window that \<open>AddNewServer\<close>
  registered for the server is still there after \<open>DeleteServer\<close>.
\<close>

theorem DeleteServer_keeps_analysis:
  "fst (AddNewServer GetError 1 tableWithCaller) = None
   \<and> svrs tableAdded ''10.0.0.1:80'' = Some 1
   \<and> analysiser tableAdded ''10.0.0.1:80'' = Some [1]
   \<and> fst (DeleteServer ''10.0.0.1:80'' tableAdded) = None
   \<and> svrs (snd (DeleteServer ''10.0.0.1:80'' tableAdded)) ''10.0.0.1:80'' = None
   \<and> analysiser (snd (DeleteServer ''10.0.0.1:80'' tableAdded)) ''10.0.0.1:80'' = Some [1]"
proof -
  have a: "fst (AddNewServer GetError 1 tableWithCaller) = None"
    by (simp add: AddNewServer_def tableWithCaller_def emptyTable_def)
  have b: "svrs tableAdded ''10.0.0.1:80'' = Some 1"
    "analysiser tableAdded ''10.0.0.1:80'' = Some [1]"
    by (simp_all add: AddNewServer_def analyseServer_def AddRecentCount_def addNewAnalysis_def
        startServer_def addToCheck_def registerServer_def init_def Let_def check_def
        check_succ_def fail_def changeTo_def example_defs)
  have c: "fst (DeleteServer ''10.0.0.1:80'' tableAdded) = None"
    "svrs (snd (DeleteServer ''10.0.0.1:80'' tableAdded)) ''10.0.0.1:80'' = None"
    "analysiser (snd (DeleteServer ''10.0.0.1:80'' tableAdded)) = analysiser tableAdded"
    using b(1)
    by (simp_all add: DeleteServer_def Let_def foldl_unbindAt_fields removeFromCheck_def)
  show ?thesis
    using a b c by simp
qed

section \<open>Adding twice, deleting twice\<close>

lemma getAPIKey_neq: "getAPIKey url method \<noteq> url"
proof
  assume "getAPIKey url method = url"
  then have "length (getAPIKey url method) = length url" by simp
  then show False by (simp add: getAPIKey_def)
qed

lemma AddNewAPI_twice:
  "map_of (apis rt) (URL api) = None \<Longrightarrow>
   fst (AddNewAPI api rt) = None \<and> fst (AddNewAPI api (snd (AddNewAPI api rt))) = None"
  by (simp add: AddNewAPI_def update_conv' getAPIKey_neq getAPIKey_neq [symmetric])

text \<open>
  C4 fails for APIs.  \<open>AddNewAPI\<close> looks for the API under its URL, but stores it
  under the key of its URL and method (as \<open>UpdateAPI\<close> and \<open>DeleteAPI\<close> look it
  up).  The second of two calls with the same API finds nothing under the URL and
  returns no error, where the claim has \<open>ErrAPIExists\<close>.
\<close>

theorem AddNewAPI_twice_accepted:
  "fst (AddNewAPI apiHello emptyTable) = None
   \<and> fst (AddNewAPI apiHello (snd (AddNewAPI apiHello emptyTable))) = None"
  by (simp add: AddNewAPI_def emptyTable_def apiHello_def getAPIKey_def)

text \<open>
  For servers, clusters and routings the second call of two does return the error, and
  leaves the table as it was; so does the second deletion of a server, a routing or an
  API.
\<close>

lemma startServer_Addr: "Addr (servers (startServer pr p rt) p) = Addr (servers rt p)"
  by (simp add: startServer_def addToCheck_def Let_def changeTo_def check_def reset_def fail_def)

lemma AddNewServer_twice:
  assumes "fst (AddNewServer pr p rt) = None"
  shows "AddNewServer pr' p (snd (AddNewServer pr p rt))
           = (Some ErrServerExists, snd (AddNewServer pr p rt))"
proof -
  have n: "svrs rt (Addr (servers rt p)) = None"
    using assms by (auto simp: AddNewServer_def split: if_splits)
  let ?rt' = "snd (AddNewServer pr p rt)"
  have e: "?rt' = analyseServer p (startServer pr p (registerServer p rt))"
    using n by (simp add: AddNewServer_def)
  have "Addr (servers ?rt' p) = Addr (servers rt p)"
    by (simp add: e analyseServer_def Let_def AddRecentCount_def addNewAnalysis_def
        startServer_Addr registerServer_def init_def)
  moreover have "svrs ?rt' (Addr (servers rt p)) = Some p"
    by (simp add: e analyseServer_def Let_def AddRecentCount_def addNewAnalysis_def
        startServer_def addToCheck_def registerServer_def)
  ultimately show ?thesis by (simp add: AddNewServer_def [of pr' p ?rt'])
qed

lemma DeleteServer_twice:
  assumes "fst (DeleteServer a rt) = None"
  shows "DeleteServer a (snd (DeleteServer a rt)) = (Some ErrServerNotFound, snd (DeleteServer a rt))"
proof -
  obtain p where p: "svrs rt a = Some p"
    using assms by (auto simp: DeleteServer_def split: option.splits)
  have "svrs (snd (DeleteServer a rt)) a = None"
    using p by (simp add: DeleteServer_def Let_def foldl_unbindAt_fields removeFromCheck_def)
  then show ?thesis by (simp add: DeleteServer_def [of a "snd (DeleteServer a rt)"])
qed

lemma AddNewCluster_twice:
  "fst (AddNewCluster c rt) = None \<Longrightarrow>
   AddNewCluster c (snd (AddNewCluster c rt)) = (Some ErrClusterExists, snd (AddNewCluster c rt))"
  by (auto simp: AddNewCluster_def split: if_splits)

lemma AddNewRouting_twice:
  "fst (AddNewRouting Check routing rt) = None \<Longrightarrow>
   AddNewRouting Check routing (snd (AddNewRouting Check routing rt))
     = (Some ErrRoutingExists, snd (AddNewRouting Check routing rt))"
  by (auto simp: AddNewRouting_def update_conv' split: if_splits option.splits)

lemma DeleteRouting_twice:
  "fst (DeleteRouting rid rt) = None \<Longrightarrow>
   DeleteRouting rid (snd (DeleteRouting rid rt))
     = (Some ErrRoutingNotFound, snd (DeleteRouting rid rt))"
  by (auto simp: DeleteRouting_def delete_conv' split: if_splits)

lemma DeleteAPI_twice:
  "fst (DeleteAPI url method rt) = None \<Longrightarrow>
   DeleteAPI url method (snd (DeleteAPI url method rt))
     = (Some ErrAPINotFound, snd (DeleteAPI url method rt))"
  by (auto simp: DeleteAPI_def delete_conv' split: if_splits)

section \<open>Health checks and the event channel\<close>

lemma bind_member: "Addr svr \<in> set (activeServers (bind svr c))"
  by (simp add: bind_def)

lemma unbind_member: "Addr svr \<notin> set (activeServers (unbind svr c))"
  by (simp add: unbind_def)

lemma changed_body_evtChan: "evtChan (changed_body p rt) = evtChan rt"
  by (simp add: changed_body_def Let_def foldl_bindAt_evtChan foldl_unbindAt_fields)

text \<open>
  The example table is one that the operations build.
\<close>

lemma tableBuilt_tableBound: "tableBuilt = Some tableBound"
proof -
  have c: "AddNewCluster 1 tableStart
      = (None, tableStart\<lparr>clusters := [''c1'' \<mapsto> 1]\<rparr>)"
    by (simp add: AddNewCluster_def tableStart_def example_defs)
  have s: "AddNewServer (GetResponse 200 (Some [])) 1 (tableStart\<lparr>clusters := [''c1'' \<mapsto> 1]\<rparr>)
      = (None, tableStart\<lparr>clusters := [''c1'' \<mapsto> 1], svrs := [''10.0.0.1:80'' \<mapsto> 1],
           mapping := [''10.0.0.1:80'' \<mapsto> []], tw := [''10.0.0.1:80'' \<mapsto> 5],
           analysiser := [''10.0.0.1:80'' \<mapsto> [1]],
           servers := (servers emptyTable)(1 := (init srv5)\<lparr>Status := Up, prevStatus := Down\<rparr>)\<rparr>)"
    by (simp add: AddNewServer_def registerServer_def startServer_def addToCheck_def
        analyseServer_def addNewAnalysis_def AddRecentCount_def check_def check_succ_def
        reset_def changeTo_def Let_def tableStart_def example_defs)
  have b: "Bind ''10.0.0.1:80'' ''c1''
       (tableStart\<lparr>clusters := [''c1'' \<mapsto> 1], svrs := [''10.0.0.1:80'' \<mapsto> 1],
           mapping := [''10.0.0.1:80'' \<mapsto> []], tw := [''10.0.0.1:80'' \<mapsto> 5],
           analysiser := [''10.0.0.1:80'' \<mapsto> [1]],
           servers := (servers emptyTable)(1 := (init srv5)\<lparr>Status := Up, prevStatus := Down\<rparr>)\<rparr>)
      = Some (None, tableBound\<lparr>servers :=
           (servers emptyTable)(1 := (init srv5)\<lparr>Status := Up, prevStatus := Down\<rparr>)\<rparr>)"
    by (simp add: Bind_def bindedOf_def bindAt_def bind_def Let_def tableStart_def
        example_defs)
  have k: "RouteTable_check (GetResponse 200 (Some [])) ''10.0.0.1:80''
       (tableBound\<lparr>servers :=
           (servers emptyTable)(1 := (init srv5)\<lparr>Status := Up, prevStatus := Down\<rparr>)\<rparr>)
      = Some (tableBound\<lparr>evtChan := [1]\<rparr>)"
    by (simp add: RouteTable_check_def addToCheck_def check_def check_succ_def reset_def
        changeTo_def Let_def example_defs)
  have w: "changed (tableBound\<lparr>evtChan := [1]\<rparr>) = Some tableBound"
    by (simp add: changed_def changed_body_def statusChanged_def example_defs)
  show ?thesis
    unfolding tableBuilt_def c snd_conv s b option.case k w by (rule refl)
qed

text \<open>
  C5, as the code has it.  Every run of \<open>RouteTable.check\<close> for a server of the table
  (one that has its client, or whose check is stopped) sends the server on the channel,
  whether its status has changed or not.  It is the receiver that looks at the change:
  \<open>changed\<close> takes a server whose status equals its previous status off the channel
  and does nothing else; for a server whose status differs, it binds the server to every
  cluster of its mapping when the status is \<open>Up\<close> and unbinds it from them otherwise.
\<close>

theorem check_sends_changed_filters:
  "(svrs rt addr = Some p
      \<and> (checkStopped (servers rt p) \<or> httpClient (servers rt p) \<noteq> None) \<longrightarrow>
      (\<exists>rt'. RouteTable_check pr addr rt = Some rt' \<and> evtChan rt' = evtChan rt @ [p]))
   \<and> (evtChan rt2 = q2 # rest2 \<and> \<not> statusChanged (servers rt2 q2) \<longrightarrow>
        changed rt2 = Some (rt2\<lparr>evtChan := rest2\<rparr>))
   \<and> (evtChan rt3 = q3 # rest3 \<and> statusChanged (servers rt3 q3) \<longrightarrow>
        (\<exists>rt'. changed rt3 = Some rt' \<and> evtChan rt' = rest3
           \<and> (\<forall>c\<in>snd ` set (bindedOf rt3 (Addr (servers rt3 q3))).
                 (Addr (servers rt3 q3) \<in> set (activeServers (clusterObjs rt' c)))
                   = (Status (servers rt3 q3) = Up))))"
proof (intro conjI impI)
  assume "svrs rt addr = Some p
      \<and> (checkStopped (servers rt p) \<or> httpClient (servers rt p) \<noteq> None)"
  then show "\<exists>rt'. RouteTable_check pr addr rt = Some rt' \<and> evtChan rt' = evtChan rt @ [p]"
    by (auto simp: RouteTable_check_def Let_def addToCheck_def)
next
  assume "evtChan rt2 = q2 # rest2 \<and> \<not> statusChanged (servers rt2 q2)"
  then show "changed rt2 = Some (rt2\<lparr>evtChan := rest2\<rparr>)"
    by (simp add: changed_def changed_body_def)
next
  assume a: "evtChan rt3 = q3 # rest3 \<and> statusChanged (servers rt3 q3)"
  let ?rt = "rt3\<lparr>evtChan := rest3\<rparr>"
  have b: "bindedOf ?rt = bindedOf rt3"
    by (simp add: bindedOf_def fun_eq_iff)
  have "changed rt3 = Some (changed_body q3 ?rt)"
    using a by (simp add: changed_def)
  moreover have "evtChan (changed_body q3 ?rt) = rest3"
    by (simp add: changed_body_evtChan)
  moreover have "\<forall>c\<in>snd ` set (bindedOf rt3 (Addr (servers rt3 q3))).
      (Addr (servers rt3 q3) \<in> set (activeServers (clusterObjs (changed_body q3 ?rt) c)))
        = (Status (servers rt3 q3) = Up)"
    using a
    by (auto simp: changed_body_def Let_def b foldl_bindAt_clusterObjs
        foldl_unbindAt_clusterObjs bind_member unbind_member)
  ultimately show "\<exists>rt'. changed rt3 = Some rt' \<and> evtChan rt' = rest3
           \<and> (\<forall>c\<in>snd ` set (bindedOf rt3 (Addr (servers rt3 q3))).
                 (Addr (servers rt3 q3) \<in> set (activeServers (clusterObjs rt' c)))
                   = (Status (servers rt3 q3) = Up))"
    by blast
qed

lemma tableBound_server:
  "svrs tableBound ''10.0.0.1:80'' = Some 1"
  "servers tableBound 1 = (init srv5)\<lparr>Status := Up, prevStatus := Up\<rparr>"
  "httpClient (servers tableBound 1) = Some 3"
  "\<not> checkStopped (servers tableBound 1)"
  "evtChan tableBound = []"
  by (simp_all add: example_defs)

lemma tableChecked_eq:
  "RouteTable_check (GetResponse 200 (Some [])) ''10.0.0.1:80'' tableBound = Some tableChecked"
  using tableBound_server(1,3,4)
  by (simp add: tableChecked_def RouteTable_check_def Let_def)

lemma tableChecked_server:
  "evtChan tableChecked = [1]" "Status (servers tableChecked 1) = Up"
  "\<not> statusChanged (servers tableChecked 1)"
  using tableBound_server(1,3,4)
  by (simp_all add: tableChecked_def RouteTable_check_def addToCheck_def Let_def check_def
      check_succ_def reset_def changeTo_def statusChanged_def example_defs)

lemma tableFailed_server:
  "evtChan tableFailed = [1]" "statusChanged (servers tableFailed 1)"
  "Status (servers tableFailed 1) = Down"
  "bindedOf tableFailed (Addr (servers tableFailed 1)) = [(''c1'', 1)]"
  "Addr (servers tableFailed 1) = ''10.0.0.1:80''"
  using tableBound_server(1,3,4)
  by (simp_all add: tableFailed_def RouteTable_check_def addToCheck_def Let_def check_def
      check_succ_def fail_def changeTo_def statusChanged_def bindedOf_def example_defs)

theorem check_sends_changed_filters_witness:
  "svrs tableBound ''10.0.0.1:80'' = Some 1
   \<and> httpClient (servers tableBound 1) = Some 3
   \<and> RouteTable_check (GetResponse 200 (Some [])) ''10.0.0.1:80'' tableBound = Some tableChecked
   \<and> evtChan tableChecked = [1]
   \<and> \<not> statusChanged (servers tableChecked 1)
   \<and> changed tableChecked = Some (tableChecked\<lparr>evtChan := []\<rparr>)
   \<and> evtChan tableFailed = [1]
   \<and> statusChanged (servers tableFailed 1)
   \<and> Status (servers tableFailed 1) = Down
   \<and> ''10.0.0.1:80'' \<notin> set (activeServers (clusterObjs (the (changed tableFailed)) 1))"
proof -
  have e: "Status (servers tableFailed 1) \<noteq> Up"
    using tableFailed_server(3) by (simp add: Up_def Down_def)
  show ?thesis
    using tableBound_server(1,3) tableChecked_eq tableChecked_server tableFailed_server e
      check_sends_changed_filters [of tableBound "''10.0.0.1:80''" 1 "GetResponse 200 (Some [])"
        tableChecked 1 "[]" tableFailed 1 "[]"]
    by auto
qed

text \<open>
  C5, as the spec states it, fails: a check that leaves the status of the server as it
  was (here \<open>Up\<close>, and the probe succeeds) still puts the server on the channel.
\<close>

theorem check_sends_unchanged:
  "tableBuilt = Some tableBound
   \<and> evtChan tableBound = []
   \<and> Status (servers tableBound 1) = Up
   \<and> httpClient (servers tableBound 1) = Some 3
   \<and> RouteTable_check (GetResponse 200 (Some [])) ''10.0.0.1:80'' tableBound = Some tableChecked
   \<and> Status (servers tableChecked 1) = Up
   \<and> \<not> statusChanged (servers tableChecked 1)
   \<and> evtChan tableChecked = [1]"
  using tableBuilt_tableBound tableBound_server tableChecked_eq tableChecked_server
  by simp

section \<open>Selection\<close>

lemmas select_defs = Select_def newResult_def selectServer_def doSelectServer_def
  selectClusterByRouting_def Cluster_Select_def matchesPrefix_def matchesHost_def
  firstServer_def HasPrefix_def reqHello_def apiHello_def apiHel_def apiMissing_def
  routingOne_def tableTwoAPIs_def tableRouted_def tableUnrouted_def

lemma selectClusterByRouting_loop_find:
  "selectClusterByRouting_loop Matches rt req target rs =
     (case find (\<lambda>kv. Matches (snd kv) req) rs of
        None \<Rightarrow> target
      | Some kv \<Rightarrow> clusters rt (RoutingClusterName (snd kv)))"
  by (induction rs) simp_all

lemma Select_loop_results:
  assumes "r \<in> set (Select_loop matches Matches lb rt req results as)"
  shows "r \<in> set results
       \<or> (\<exists>kv\<in>set as. \<exists>node\<in>set (Nodes (snd kv)).
             matches (snd kv) req \<and> r = newResult Matches lb rt req (snd kv) node)"
  using assms
proof (induction as arbitrary: results)
  case Nil
  then show ?case by simp
next
  case (Cons kv as)
  let ?results = "if matches (snd kv) req
        then map (newResult Matches lb rt req (snd kv)) (Nodes (snd kv)) else results"
  have "r \<in> set (Select_loop matches Matches lb rt req ?results as)"
    using Cons.prems by simp
  then have "r \<in> set ?results
       \<or> (\<exists>kv\<in>set as. \<exists>node\<in>set (Nodes (snd kv)).
             matches (snd kv) req \<and> r = newResult Matches lb rt req (snd kv) node)"
    by (rule Cons.IH)
  then show ?case by (auto split: if_splits)
qed

lemma Select_results:
  "r \<in> set (Select matches Matches lb rt req) \<Longrightarrow>
   \<exists>kv\<in>set (apis rt). \<exists>node\<in>set (Nodes (snd kv)).
      matches (snd kv) req \<and> r = newResult Matches lb rt req (snd kv) node"
  using Select_loop_results [of r matches Matches lb rt req "[]" "apis rt"]
  by (simp add: Select_def)

text \<open>
  C1, as the code has it.  When the node of a result names a cluster that the table does
  not have, the target cluster is still nil after \<open>selectClusterByRouting\<close> if no
  routing matches the request, or if the first routing that matches names a cluster that
  the table does not have either.  Then, with no server registered under the empty
  address, the result has no server: the nil cluster goes to \<open>Cluster.Select\<close>, whose
  empty address is looked up in the server map.  (\<open>Select\<close> is a total function here;
  that the call on the nil cluster does not panic is the spec's word, see
  \<open>Cluster_Select\<close>.)
\<close>

theorem Select_missing_cluster:
  assumes "r \<in> set (Select matches Matches lb rt req)"
    and "Node r = Some node"
    and "clusters rt (ClusterName node) = None"
    and "case find (\<lambda>kv. Matches (snd kv) req) (routings rt) of
           None \<Rightarrow> True
         | Some kv \<Rightarrow> clusters rt (RoutingClusterName (snd kv)) = None"
    and "svrs rt [] = None"
  shows "Svr r = None"
proof -
  obtain api n where r: "r = newResult Matches lb rt req api n"
    using Select_results [OF assms(1)] by blast
  have n: "n = node" using assms(2) r by (simp add: newResult_def)
  have "selectClusterByRouting Matches rt req (clusters rt (ClusterName node)) = None"
    using assms(3,4)
    by (auto simp: selectClusterByRouting_def selectClusterByRouting_loop_find
        split: option.splits)
  then show ?thesis
    using assms(5) by (simp add: r n newResult_def selectServer_def doSelectServer_def Cluster_Select_def)
qed

theorem Select_missing_cluster_witness:
  "Select matchesPrefix matchesHost firstServer tableRoutedAway reqHello
     = [\<lparr>API = apiMissing, Node = Some (hd (Nodes apiMissing)), Svr = None, Err = None,
         Code = 0, Res = None, Merge = False\<rparr>]
   \<and> clusters tableRoutedAway ''missing'' = None
   \<and> find (\<lambda>kv. matchesHost (snd kv) reqHello) (routings tableRoutedAway)
       = Some (''r2'', routingGone)
   \<and> clusters tableRoutedAway ''gone'' = None
   \<and> svrs tableRoutedAway [] = None
   \<and> Select matchesPrefix matchesHost firstServer tableUnrouted reqHello
     = [\<lparr>API = apiMissing, Node = Some (hd (Nodes apiMissing)), Svr = None, Err = None,
         Code = 0, Res = None, Merge = False\<rparr>]
   \<and> routings tableUnrouted = []
   \<and> svrs tableUnrouted [] = None"
proof -
  let ?r = "\<lparr>API = apiMissing, Node = Some (hd (Nodes apiMissing)), Svr = None, Err = None,
         Code = 0, Res = None, Merge = False\<rparr>"
  have one: "Select matchesPrefix matchesHost firstServer t reqHello = [?r]"
    if a: "map API (Select matchesPrefix matchesHost firstServer t reqHello) = [apiMissing]"
        "map Node (Select matchesPrefix matchesHost firstServer t reqHello)
           = [Some (hd (Nodes apiMissing))]"
        "map Err (Select matchesPrefix matchesHost firstServer t reqHello) = [None]"
        "map Code (Select matchesPrefix matchesHost firstServer t reqHello) = [0]"
        "map Res (Select matchesPrefix matchesHost firstServer t reqHello) = [None]"
        "map Merge (Select matchesPrefix matchesHost firstServer t reqHello) = [False]"
      and b: "clusters t (ClusterName (hd (Nodes apiMissing))) = None"
        "case find (\<lambda>kv. matchesHost (snd kv) reqHello) (routings t) of
           None \<Rightarrow> True
         | Some kv \<Rightarrow> clusters t (RoutingClusterName (snd kv)) = None"
        "svrs t [] = None"
    for t
  proof -
    let ?S = "Select matchesPrefix matchesHost firstServer t reqHello"
    obtain r where S: "?S = [r]" using a(1) by (cases ?S) auto
    have "r \<in> set ?S" using S by simp
    moreover have "Node r = Some (hd (Nodes apiMissing))" using a S by simp
    ultimately have "Svr r = None"
      using Select_missing_cluster b by blast
    then have "r = ?r" using a S by (cases r) simp
    then show ?thesis using S by simp
  qed
  have away: "clusters tableRoutedAway ''missing'' = None"
    "find (\<lambda>kv. matchesHost (snd kv) reqHello) (routings tableRoutedAway)
       = Some (''r2'', routingGone)"
    "clusters tableRoutedAway ''gone'' = None" "svrs tableRoutedAway [] = None"
    by (simp_all add: select_defs tableRoutedAway_def routingGone_def example_defs)
  have un: "clusters tableUnrouted ''missing'' = None" "routings tableUnrouted = []"
    "svrs tableUnrouted [] = None"
    by (simp_all add: select_defs example_defs)
  have "Select matchesPrefix matchesHost firstServer tableRoutedAway reqHello = [?r]"
    by (rule one) (simp_all add: select_defs tableRoutedAway_def routingGone_def example_defs)
  moreover have "Select matchesPrefix matchesHost firstServer tableUnrouted reqHello = [?r]"
    by (rule one) (simp_all add: select_defs example_defs)
  ultimately show ?thesis
    using away un by simp
qed

text \<open>
  The server map is not asked whether the address is empty: a server registered under
  the empty address is what a selection miss of the cluster finds.
\<close>

lemma Select_empty_address:
  "clusters tableEmptyAddr ''missing'' = None \<and> routings tableEmptyAddr = []
   \<and> map Svr (Select matchesPrefix matchesHost firstServer tableEmptyAddr reqHello) = [Some 1]"
  by (simp add: select_defs tableEmptyAddr_def example_defs)

text \<open>
  C1, as the spec states it, fails when a routing matches the request: the routing's
  cluster takes the place of the node's missing one, and its server is selected.
\<close>

theorem Select_routed_counterexample:
  "map (map_option ClusterName \<circ> Node)
       (Select matchesPrefix matchesHost firstServer tableRouted reqHello) = [Some ''missing'']
   \<and> clusters tableRouted ''missing'' = None
   \<and> map Svr (Select matchesPrefix matchesHost firstServer tableRouted reqHello) = [Some 1]"
  by (simp add: select_defs example_defs)

lemma Select_loop_last:
  "Select_loop matches Matches lb rt req results as =
     (case filter (\<lambda>kv. matches (snd kv) req) as of
        [] \<Rightarrow> results
      | kv # kvs \<Rightarrow> map (newResult Matches lb rt req (snd (last (kv # kvs))))
                     (Nodes (snd (last (kv # kvs)))))"
proof (induction as arbitrary: results)
  case Nil
  then show ?case by simp
next
  case (Cons a as)
  show ?case
    by (simp add: Cons.IH split: list.splits)
qed

lemma Select_last_match:
  "Select matches Matches lb rt req =
     (case filter (\<lambda>kv. matches (snd kv) req) (apis rt) of
        [] \<Rightarrow> []
      | kv # kvs \<Rightarrow> map (newResult Matches lb rt req (snd (last (kv # kvs))))
                     (Nodes (snd (last (kv # kvs)))))"
  by (simp add: Select_def Select_loop_last)

text \<open>
  C3 fails on the code.  The loop of \<open>Select\<close> over the APIs has no \<open>break\<close>
  (the loop of \<open>selectClusterByRouting\<close> has one), so of two APIs that match the
  request, the results of the one visited last are returned, and those of the first are
  dropped.
\<close>

theorem Select_two_matches:
  "map fst (apis tableTwoAPIs) = [''/hello-GET'', ''/hel-GET'']
   \<and> matchesPrefix apiHello reqHello \<and> matchesPrefix apiHel reqHello
   \<and> map API (Select matchesPrefix matchesHost firstServer tableTwoAPIs reqHello) = [apiHel]"
  by (simp add: select_defs example_defs)

section \<open>The proxy: a cancelled request\<close>

text \<open>
  C8.  When the backend call of \<open>doProxy\<close> returns an error whose text begins with
  \<open>request canceled\<close>, the post-error filters are not run: the only run of the filter
  chain is the one of the pre filters before the call, and the state of the filters (the
  counters among it) is the one the pre filters left.  The result carries the error and
  the code 503.
\<close>

theorem doProxy_cancelled:
  assumes "Svr result = Some p"
    and "\<not> (NeedRewrite result \<and> GetRewritePath getNodeURL result req = [])"
    and "outreq = (if NeedRewrite result
                   then req\<lparr>RequestURI := GetRewritePath getNodeURL result req,
                            Host := Addr (servers rt p)\<rparr>
                   else req)"
    and "snd (snd (fst (doPreFilters F outreq result st))) = None"
    and "Do outreq (Addr (servers rt p)) = Failed err res"
    and "HasPrefix (Error err) ErrPrefixRequestCancel"
  shows "doProxy F getNodeURL Do rt req result st
           = (result\<lparr>Res := res, Err := Some err, Code := 503\<rparr>,
              snd (doPreFilters F outreq result st), [PreFilters])"
  using assms by (simp add: doProxy_def Let_def)

theorem doProxy_cancelled_witness:
  "Svr resultHello = Some 1
   \<and> \<not> NeedRewrite resultHello
   \<and> cancelledBackend reqHello (Addr (servers tableBound 1))
       = Failed (ErrText ''request canceled by client'') None
   \<and> HasPrefix (Error (ErrText ''request canceled by client'')) ErrPrefixRequestCancel
   \<and> snd (doProxy countingFilters noNodeURL cancelledBackend tableBound reqHello resultHello
            \<lparr>requests = 0, failures = 0\<rparr>)
       = (\<lparr>requests = 1, failures = 0\<rparr>, [PreFilters])"
proof -
  have a: "Svr resultHello = Some 1" "\<not> NeedRewrite resultHello"
    by (simp_all add: resultHello_def NeedRewrite_def apiHello_def)
  have b: "cancelledBackend reqHello (Addr (servers tableBound 1))
       = Failed (ErrText ''request canceled by client'') None"
    by (simp add: cancelledBackend_def)
  have c: "HasPrefix (Error (ErrText ''request canceled by client'')) ErrPrefixRequestCancel"
    by (simp add: HasPrefix_def ErrPrefixRequestCancel_def)
  have d: "snd (snd (fst (doPreFilters countingFilters reqHello resultHello
      \<lparr>requests = 0, failures = 0\<rparr>))) = None"
    by (simp add: countingFilters_def)
  have "doProxy countingFilters noNodeURL cancelledBackend tableBound reqHello resultHello
      \<lparr>requests = 0, failures = 0\<rparr>
    = (resultHello\<lparr>Res := None, Err := Some (ErrText ''request canceled by client''),
         Code := 503\<rparr>,
       snd (doPreFilters countingFilters reqHello resultHello \<lparr>requests = 0, failures = 0\<rparr>),
       [PreFilters])"
    using a b c d
      doProxy_cancelled [where result = resultHello and p = 1 and outreq = reqHello
        and req = reqHello and rt = tableBound and F = countingFilters and Do = cancelledBackend
        and st = "\<lparr>requests = 0, failures = 0\<rparr>" and getNodeURL = noNodeURL]
    by simp
  then show ?thesis
    using a b c by (simp add: countingFilters_def)
qed

text \<open>
  Any other error of the backend call does go through the post-error filters; with the
  counting filters of the example, it is counted as a failure.
\<close>

lemma doProxy_failed:
  assumes "Svr result = Some p"
    and "\<not> (NeedRewrite result \<and> GetRewritePath getNodeURL result req = [])"
    and "outreq = (if NeedRewrite result
                   then req\<lparr>RequestURI := GetRewritePath getNodeURL result req,
                            Host := Addr (servers rt p)\<rparr>
                   else req)"
    and "snd (snd (fst (doPreFilters F outreq result st))) = None"
    and "Do outreq (Addr (servers rt p)) = Failed err res"
    and "\<not> HasPrefix (Error err) ErrPrefixRequestCancel"
  shows "doProxy F getNodeURL Do rt req result st
           = (result\<lparr>Res := res, Err := Some err, Code := 503\<rparr>,
              doPostErrFilters F outreq (result\<lparr>Res := res\<rparr>)
                (snd (doPreFilters F outreq result st)),
              [PreFilters, PostErrFilters])"
  using assms by (simp add: doProxy_def Let_def)

lemma doProxy_refused:
  "snd (doProxy countingFilters noNodeURL refusedBackend tableBound reqHello resultHello
            \<lparr>requests = 0, failures = 0\<rparr>)
       = (\<lparr>requests = 1, failures = 1\<rparr>, [PreFilters, PostErrFilters])"
  by (simp add: doProxy_def Let_def countingFilters_def refusedBackend_def resultHello_def
      NeedRewrite_def apiHello_def HasPrefix_def ErrPrefixRequestCancel_def)

section \<open>The proxy: merging the responses\<close>




lemma Header_Del_keys: "fst ` set (Header_Del h k) = fst ` set h - {k}"
  by (auto simp: Header_Del_def)

lemma foldl_Header_Del_keys: "fst ` set (foldl Header_Del h ks) = fst ` set h - set ks"
  by (induction ks arbitrary: h) (auto simp: Header_Del_keys)

lemma stripped_lookup:
  "k \<in> set ks \<Longrightarrow> map_of (foldl Header_Del h ks) k = None"
  by (simp add: map_of_eq_None_iff foldl_Header_Del_keys)

lemma SetContentType_lookup: "map_of (SetContentType v h) ''Content-Type'' = Some v"
  by (simp add: SetContentType_def)




text \<open>
  With a \<open>CopyTo\<close> that leaves in the destination only what it copies, the header of
  the answer is that of the last backend response, again without the three lines.
\<close>

lemma merge_response_overwrite:
  "map_option RespHeader
       (ReverseProxyHandler proxiedAB noMock overwrite False selectedAB ctxHello)
     = Some [(''Content-Type'', ''application/json; charset=utf-8''), (''X-B'', ''2'')]"
  by (simp add: ReverseProxyHandler_def Let_def selectedAB_def proxiedAB_def resultA_def
      resultB_def overwrite_def ctxHello_def SetContentType_def MergeContentType_def
      MergeRemoveHeaders_def Header_Del_def)

end
